theory Spec2Isabelle
  imports Main "HOL-Library.Word" "HOL-Library.Signed_Division"
begin

unbundle bit_operations_syntax

section \<open>talk/base/systeminfo.cc: the data model\<close>

text \<open>
  The file is one class, \<^verbatim>\<open>talk_base::SystemInfo\<close>, whose body is selected by the
  preprocessor. The embedding has three parameters:
  \<^item> a \<open>build\<close>: the macros that select the compiled branches;
  \<^item> a \<open>host\<close>: what every operating-system or hardware source answers when it is
    asked (one field per source; a build reads only the sources of its own branch);
  \<^item> the instance, a record of the private members.
  Every member function takes the instance and returns its result together with the
  instance after the call. C++ \<^verbatim>\<open>int\<close> is \<open>32 word\<close> and \<^verbatim>\<open>int64\<close> is
  \<open>64 word\<close>; signed comparisons read the word through \<open>sint\<close>. Member names
  lose the trailing underscore of the source.
\<close>

type_synonym int32 = "32 word"
type_synonym int64 = "64 word"

text \<open>
  Modelled from the spec: the enumeration \<^verbatim>\<open>SystemInfo::Architecture\<close> is declared
  in \<^verbatim>\<open>talk/base/systeminfo.h\<close>; its values are the three that lines 128-132 assign
  and the spec lists.
\<close>

datatype Architecture = SI_ARCH_X86 | SI_ARCH_X64 | SI_ARCH_ARM

text \<open>
  The operating-system macro. \<open>LINUX\<close> stands for the final \<^verbatim>\<open>#else\<close> of every
  chain (\<^verbatim>\<open>LINUX || ANDROID\<close>). The macros are taken as mutually exclusive.
  \<^verbatim>\<open>CPU_ARM\<close> and \<^verbatim>\<open>CPU_X86\<close> are defined by the headers of the library from the
  compiler's macros; a build gives them as they come out.
\<close>

datatype platform = WIN32 | OSX | IOS | LINUX

record build =
  platform :: platform
  CPU_ARM :: bool
  CPU_X86 :: bool
  x86_64 :: bool        \<comment> \<open>\<^verbatim>\<open>__x86_64__ || _M_X64\<close>\<close>
  i386 :: bool          \<comment> \<open>\<^verbatim>\<open>__i386__ || _M_IX86\<close>\<close>
  EXCLUDE_D3D9 :: bool

text \<open>
  The members of the class, in the order of the initialiser list (lines 123-125) and of
  the bodies, each with the type that its accessor returns.
\<close>

record system_info =
  physical_cpus :: int32
  logical_cpus :: int32
  cache_size :: int32
  cpu_family :: int32
  cpu_model :: int32
  cpu_stepping :: int32
  cpu_speed :: int32
  memory :: int64
  cpu_arch :: Architecture
  cpu_vendor :: string
  machine_model :: string

subsection \<open>The sources of the host\<close>

text \<open>
  One entry of the buffer filled by \<^verbatim>\<open>GetLogicalProcessorInformation\<close>: only the
  relationship and, for a cache, \<^verbatim>\<open>Cache.Size\<close> are read (lines 85-91).
\<close>

datatype relationship = RelationProcessorCore | RelationCache "32 word" | RelationOther

text \<open>
  One call of \<^verbatim>\<open>glpi(infos.get(), &return_length)\<close>: success with the
  \<^verbatim>\<open>return_length / sizeof(...)\<close> entries of the buffer, or failure with the code
  that \<^verbatim>\<open>GetLastError()\<close> then gives.
\<close>

datatype glpi_reply = GlpiOk "relationship list" | GlpiFail "32 word"

definition ERROR_INSUFFICIENT_BUFFER :: "32 word" where
  "ERROR_INSUFFICIENT_BUFFER = 122"

text \<open>
  \<^verbatim>\<open>D3DADAPTER_IDENTIFIER9\<close>, the fields read at lines 504-514. The character arrays
  are given as the C strings they hold; \<^verbatim>\<open>DriverVersion\<close> is a
  \<^verbatim>\<open>LARGE_INTEGER\<close> with a 32-bit \<^verbatim>\<open>HighPart\<close> and \<^verbatim>\<open>LowPart\<close>.
\<close>

record D3DADAPTER_IDENTIFIER9 =
  Driver :: string
  Description :: string
  DeviceName :: string
  DriverVersion_HighPart :: "32 word"
  DriverVersion_LowPart :: "32 word"
  VendorId :: "32 word"
  DeviceId :: "32 word"

definition D3D_OK :: "32 word" where
  "D3D_OK = 0"

definition E_FAIL :: "32 word" where
  "E_FAIL = 0x80004005"

text \<open>
  What \<^verbatim>\<open>IORegistryEntrySearchCFProperty\<close> finds for a property name, by the type
  identifiers tested in the two \<^verbatim>\<open>GetProperty\<close> helpers (lines 439-473). The
  converters \<^verbatim>\<open>p_convertCFNumberToInt\<close> and
  \<^verbatim>\<open>p_convertHostCFStringRefToCPPString\<close> are declared in
  \<^verbatim>\<open>talk/base/macconversion.h\<close>: a number or string carries what the converter
  writes to its output, \<open>None\<close> when it writes nothing.
\<close>

datatype cf_value =
    CFNumber "int32 option"
  | CFString "string option"
  | CFData string
  | CFOther

text \<open>
  The host. \<open>sysctl32\<close>, \<open>sysctl64\<close> and \<open>sysctl_buf\<close> are
  \<^verbatim>\<open>sysctlbyname\<close> called with a \<^verbatim>\<open>uint32_t\<close>, a \<^verbatim>\<open>uint64_t\<close> and a
  character buffer: \<open>None\<close> is a non-zero return, \<open>Some v\<close> is return 0 with \<open>v\<close>
  stored (for a buffer, the \<^verbatim>\<open>length\<close> bytes stored). The \<open>proc_\<close> fields are
  the member functions of \<^verbatim>\<open>ProcCpuInfo\<close> (declared in \<^verbatim>\<open>talk/base/linux.h\<close>):
  \<open>Some v\<close> when the call stores \<open>v\<close> through its output pointer, \<open>None\<close> when it
  leaves the output as it was. \<open>cpuid\<close> gives the four registers
  \<^verbatim>\<open>cpu_info[0..3]\<close> (eax, ebx, ecx, edx) for a leaf.
\<close>

record host =
  \<comment> \<open>Win32\<close>
  dwNumberOfProcessors :: "32 word"
  wProcessorLevel :: "16 word"
  wProcessorRevision :: "16 word"
  glpi_found :: bool
  glpi :: "nat \<Rightarrow> glpi_reply"
  RegOpenKeyEx_ok :: bool
  RegQueryValueEx_Mhz :: "32 word option"
  GlobalMemoryStatusEx :: "64 word option"
  LoadLibrary_d3d9 :: bool
  GetProcAddress_Direct3DCreate9 :: bool
  Direct3DCreate9_ok :: bool
  GetAdapterIdentifier :: "32 word \<times> D3DADAPTER_IDENTIFIER9"
  \<comment> \<open>OSX, IOS\<close>
  sysctl32 :: "string \<Rightarrow> 32 word option"
  sysctl64 :: "string \<Rightarrow> 64 word option"
  sysctl_buf :: "string \<Rightarrow> string option"
  SearchForProperty :: "string \<Rightarrow> cf_value option"
  \<comment> \<open>LINUX, ANDROID\<close>
  proc_LoadFromSystem :: bool
  proc_GetNumCpus :: "int32 option"
  proc_GetNumPhysicalCpus :: "int32 option"
  proc_GetCpuFamily :: "int32 option"
  proc_GetSectionIntValue :: "string \<Rightarrow> int32 option"
  ReadCpuMaxFreq :: int32
  sysconf_SC_PHYS_PAGES :: int64
  sysconf_SC_PAGESIZE :: int64
  \<comment> \<open>the instruction\<close>
  cpuid :: "32 word \<Rightarrow> 32 word \<times> 32 word \<times> 32 word \<times> 32 word"

text \<open>
  Modelled from the spec: the output structure \<^verbatim>\<open>GpuInfo\<close> is declared in
  \<^verbatim>\<open>talk/base/systeminfo.h\<close>; its fields are the ones the spec lists for
  \<open>gpu_info\<close>, with the types of the values that \<^verbatim>\<open>GetGpuInfo\<close> assigns.
\<close>

record GpuInfo =
  device_name :: string
  description :: string
  vendor_id :: int32
  device_id :: int32
  driver :: string
  driver_version :: string

section \<open>The constructor (lines 122-222)\<close>

text \<open>
  Lines 127-135. A build that defines none of the three macros stops at
  \<^verbatim>\<open>#error\<close>: there is no program, hence no instance.
\<close>

definition target_arch :: "build \<Rightarrow> Architecture option" where
  "target_arch b =
     (if CPU_ARM b then Some SI_ARCH_ARM
      else if x86_64 b then Some SI_ARCH_X64
      else if i386 b then Some SI_ARCH_X86
      else None)"

text \<open>The initialiser list (lines 123-125); the two strings start empty.\<close>

definition SystemInfo_init :: "Architecture \<Rightarrow> system_info" where
  "SystemInfo_init a =
     \<lparr> physical_cpus = 1, logical_cpus = 1, cache_size = 0,
       cpu_family = 0, cpu_model = 0, cpu_stepping = 0,
       cpu_speed = 0, memory = 0,
       cpu_arch = a, cpu_vendor = [], machine_model = [] \<rparr>"

subsection \<open>Win32: \<^verbatim>\<open>GetProcessorInformation\<close> (lines 61-95)\<close>

text \<open>
  The \<^verbatim>\<open>while\<close> loop of lines 73-80, from the \<open>n\<close>-th call of \<^verbatim>\<open>glpi\<close> on. It
  ends with \<open>Some infos\<close> when a call succeeds and with \<open>None\<close> at a failure other
  than \<^verbatim>\<open>ERROR_INSUFFICIENT_BUFFER\<close>; a host that answers "insufficient buffer"
  for ever keeps it running, which is the outer \<open>None\<close>.
\<close>

partial_function (option) glpi_loop ::
  "(nat \<Rightarrow> glpi_reply) \<Rightarrow> nat \<Rightarrow> relationship list option option" where
  "glpi_loop g n =
     (case g n of
        GlpiOk infos \<Rightarrow> Some (Some infos)
      | GlpiFail e \<Rightarrow>
          if e = ERROR_INSUFFICIENT_BUFFER then glpi_loop g (Suc n) else Some None)"

declare glpi_loop.simps [code]

text \<open>The \<^verbatim>\<open>for\<close> loop of lines 83-93 on the pair (physical_cpus, cache_size).\<close>

fun count_infos :: "relationship list \<Rightarrow> int32 \<times> int32 \<Rightarrow> int32 \<times> int32" where
  "count_infos [] pc = pc"
| "count_infos (RelationProcessorCore # infos) (p, c) = count_infos infos (p + 1, c)"
| "count_infos (RelationCache sz # infos) (p, c) =
     count_infos infos (p, if sint c \<le> sint sz then sz else c)"
| "count_infos (RelationOther # infos) (p, c) = count_infos infos (p, c)"

text \<open>
  The two reference parameters go in and come out as a pair; they are reset to 0 only
  after the enumeration has succeeded (lines 81-82).
\<close>

definition GetProcessorInformation :: "host \<Rightarrow> int32 \<times> int32 \<Rightarrow> (int32 \<times> int32) option" where
  "GetProcessorInformation h pc =
     (if \<not> glpi_found h then Some pc
      else case glpi_loop (glpi h) 0 of
             None \<Rightarrow> None
           | Some None \<Rightarrow> Some pc
           | Some (Some infos) \<Rightarrow> Some (count_infos infos (0, 0)))"

text \<open>Lines 138-147.\<close>

definition SystemInfo_win32 :: "host \<Rightarrow> system_info \<Rightarrow> system_info option" where
  "SystemInfo_win32 h s =
     (let s1 = s\<lparr>logical_cpus := dwNumberOfProcessors h\<rparr> in
      case GetProcessorInformation h (physical_cpus s1, cache_size s1) of
        None \<Rightarrow> None
      | Some (p, c) \<Rightarrow>
          Some (s1\<lparr> physical_cpus := (if sint p \<le> 0 then logical_cpus s1 else p),
                    cache_size := c,
                    cpu_family := ucast (wProcessorLevel h),
                    cpu_model := drop_bit 8 (ucast (wProcessorRevision h)),
                    cpu_stepping := ucast (wProcessorRevision h) AND 0xFF \<rparr>))"

subsection \<open>OSX and IOS (lines 149-182)\<close>

text \<open>A successful \<^verbatim>\<open>sysctlbyname\<close> overwrites the member, a failed one leaves it.\<close>

definition store :: "'a option \<Rightarrow> 'a \<Rightarrow> 'a" where
  "store r old = (case r of Some v \<Rightarrow> v | None \<Rightarrow> old)"

definition SystemInfo_apple :: "host \<Rightarrow> system_info \<Rightarrow> system_info" where
  "SystemInfo_apple h s =
     (let s1 = s\<lparr>physical_cpus := store (sysctl32 h ''hw.physicalcpu_max'') (physical_cpus s)\<rparr>;
          s2 = s1\<lparr>logical_cpus := store (sysctl32 h ''hw.logicalcpu_max'') (logical_cpus s1)\<rparr>;
          s3 = s2\<lparr>cache_size :=
                    store (map_option ucast (sysctl64 h ''hw.l3cachesize'')) (cache_size s2)\<rparr>;
          s4 = (if cache_size s3 = 0
                then s3\<lparr>cache_size :=
                          store (map_option ucast (sysctl64 h ''hw.l2cachesize'')) (cache_size s3)\<rparr>
                else s3);
          s5 = s4\<lparr>cpu_family := store (sysctl32 h ''machdep.cpu.family'') (cpu_family s4)\<rparr>;
          s6 = s5\<lparr>cpu_model := store (sysctl32 h ''machdep.cpu.model'') (cpu_model s5)\<rparr>
      in s6\<lparr>cpu_stepping := store (sysctl32 h ''machdep.cpu.stepping'') (cpu_stepping s6)\<rparr>)"

subsection \<open>LINUX and ANDROID (lines 184-208)\<close>

text \<open>
  \<^verbatim>\<open>cache_size_ *= 1024\<close> and \<^verbatim>\<open>max_freq / 1000\<close> are \<^verbatim>\<open>int\<close> arithmetic: the
  product is taken modulo \<open>2 ^ 32\<close> and the quotient truncates towards zero.
\<close>

definition int_div :: "int32 \<Rightarrow> int32 \<Rightarrow> int32" where
  "int_div x y = word_of_int (sint x sdiv sint y)"

definition SystemInfo_linux :: "build \<Rightarrow> host \<Rightarrow> system_info \<Rightarrow> system_info" where
  "SystemInfo_linux b h s =
     (let s1 =
        (if proc_LoadFromSystem h then
           let t1 = s\<lparr>logical_cpus := store (proc_GetNumCpus h) (logical_cpus s)\<rparr>;
               t2 = t1\<lparr>physical_cpus := store (proc_GetNumPhysicalCpus h) (physical_cpus t1)\<rparr>;
               t3 = t2\<lparr>cpu_family := store (proc_GetCpuFamily h) (cpu_family t2)\<rparr>
           in if \<not> CPU_ARM b then
                let t4 = t3\<lparr>cpu_model :=
                             store (proc_GetSectionIntValue h ''model'') (cpu_model t3)\<rparr>;
                    t5 = t4\<lparr>cpu_stepping :=
                             store (proc_GetSectionIntValue h ''stepping'') (cpu_stepping t4)\<rparr>;
                    t6 = t5\<lparr>cpu_speed :=
                             store (proc_GetSectionIntValue h ''cpu MHz'') (cpu_speed t5)\<rparr>;
                    t7 = t6\<lparr>cache_size :=
                             store (proc_GetSectionIntValue h ''cache size'') (cache_size t6)\<rparr>
                in t7\<lparr>cache_size := cache_size t7 * 1024\<rparr>
              else t3
         else s);
          max_freq = ReadCpuMaxFreq h
      in if 0 < sint max_freq then s1\<lparr>cpu_speed := int_div max_freq 1000\<rparr> else s1)"

subsection \<open>The extended leaf (lines 212-221)\<close>

text \<open>
  \<^verbatim>\<open>cpu_info\<close> is an array of \<^verbatim>\<open>int\<close>, so \<^verbatim>\<open>cpu_info[2] >> 16\<close> shifts a signed
  value: the compilers this file is built with (MSVC, GCC, Clang) shift arithmetically,
  which is \<open>signed_drop_bit\<close>. The comparison of line 216 is unsigned.
\<close>

definition SystemInfo_cpuid :: "build \<Rightarrow> host \<Rightarrow> system_info \<Rightarrow> system_info" where
  "SystemInfo_cpuid b h s =
     (if CPU_X86 b then
        if cache_size s = 0 then
          (case cpuid h 0x80000000 of (a0, b0, c0, d0) \<Rightarrow>
             if 0x80000006 \<le> a0 then
               (case cpuid h 0x80000006 of (a1, b1, c1, d1) \<Rightarrow>
                  s\<lparr>cache_size := signed_drop_bit 16 c1 * 1024\<rparr>)
             else s)
        else s
      else s)"

text \<open>The whole constructor.\<close>

definition SystemInfo :: "build \<Rightarrow> host \<Rightarrow> system_info option" where
  "SystemInfo b h =
     (case target_arch b of
        None \<Rightarrow> None
      | Some a \<Rightarrow>
          (case platform b of
             WIN32 \<Rightarrow> map_option (SystemInfo_cpuid b h) (SystemInfo_win32 h (SystemInfo_init a))
           | OSX \<Rightarrow> Some (SystemInfo_cpuid b h (SystemInfo_apple h (SystemInfo_init a)))
           | IOS \<Rightarrow> Some (SystemInfo_cpuid b h (SystemInfo_apple h (SystemInfo_init a)))
           | LINUX \<Rightarrow> Some (SystemInfo_cpuid b h (SystemInfo_linux b h (SystemInfo_init a)))))"

section \<open>The accessors\<close>

subsection \<open>Plain reads (lines 225-232, 260-262, 286-303)\<close>

definition GetMaxCpus :: "system_info \<Rightarrow> int32 \<times> system_info" where
  "GetMaxCpus s = (logical_cpus s, s)"

definition GetMaxPhysicalCpus :: "system_info \<Rightarrow> int32 \<times> system_info" where
  "GetMaxPhysicalCpus s = (physical_cpus s, s)"

definition GetCpuArchitecture :: "system_info \<Rightarrow> Architecture \<times> system_info" where
  "GetCpuArchitecture s = (cpu_arch s, s)"

definition GetCpuCacheSize :: "system_info \<Rightarrow> int32 \<times> system_info" where
  "GetCpuCacheSize s = (cache_size s, s)"

definition GetCpuFamily :: "system_info \<Rightarrow> int32 \<times> system_info" where
  "GetCpuFamily s = (cpu_family s, s)"

definition GetCpuModel :: "system_info \<Rightarrow> int32 \<times> system_info" where
  "GetCpuModel s = (cpu_model s, s)"

definition GetCpuStepping :: "system_info \<Rightarrow> int32 \<times> system_info" where
  "GetCpuStepping s = (cpu_stepping s, s)"

subsection \<open>\<^verbatim>\<open>GetCpuVendor\<close> (lines 267-284)\<close>

text \<open>The four bytes of an \<^verbatim>\<open>int\<close> in memory, lowest first (x86 is little-endian).\<close>

definition byte_char :: "8 word \<Rightarrow> char" where
  "byte_char x = char_of (unat x)"

definition int_bytes :: "32 word \<Rightarrow> string" where
  "int_bytes w =
     map byte_char [ucast w, ucast (drop_bit 8 w), ucast (drop_bit 16 w), ucast (drop_bit 24 w)]"

text \<open>
  \<^verbatim>\<open>std::string(const char*)\<close>: the characters before the first zero byte.
\<close>

definition c_str :: "string \<Rightarrow> string" where
  "c_str bytes = takeWhile (\<lambda>c. c \<noteq> CHR 0x00) bytes"

text \<open>
  Lines 272-276: \<^verbatim>\<open>cpu_info\<close> after the reordering is [ebx, edx, ecx, 0], read as a
  C string from its first byte.
\<close>

definition vendor_string :: "32 word \<times> 32 word \<times> 32 word \<times> 32 word \<Rightarrow> string" where
  "vendor_string regs =
     (case regs of (a, b, c, d) \<Rightarrow>
        c_str (int_bytes b @ int_bytes d @ int_bytes c @ int_bytes 0))"

definition GetCpuVendor :: "build \<Rightarrow> host \<Rightarrow> system_info \<Rightarrow> string \<times> system_info" where
  "GetCpuVendor b h s =
     (if cpu_vendor s = [] then
        let v = (if CPU_X86 b then vendor_string (cpuid h 0)
                 else if CPU_ARM b then ''ARM''
                 else ''Undefined'')
        in (v, s\<lparr>cpu_vendor := v\<rparr>)
      else (cpu_vendor s, s))"

subsection \<open>\<^verbatim>\<open>GetMaxCpuSpeed\<close> (lines 307-346)\<close>

text \<open>
  The value the branch of the build assigns to \<^verbatim>\<open>cpu_speed_\<close>. On Win32 the
  \<^verbatim>\<open>DWORD\<close> read from the registry is stored as it is; on OSX and IOS the 64-bit
  frequency is divided by 1000000 (unsigned) and cast to \<^verbatim>\<open>int\<close>.
\<close>

definition query_max_cpu_speed :: "build \<Rightarrow> host \<Rightarrow> int32" where
  "query_max_cpu_speed b h =
     (case platform b of
        WIN32 \<Rightarrow>
          (if RegOpenKeyEx_ok h then
             (case RegQueryValueEx_Mhz h of Some data \<Rightarrow> data | None \<Rightarrow> - 1)
           else - 1)
      | OSX \<Rightarrow>
          (case sysctl64 h ''hw.cpufrequency_max'' of
             Some v \<Rightarrow> ucast (v div 1000000) | None \<Rightarrow> - 1)
      | IOS \<Rightarrow>
          (case sysctl64 h ''hw.cpufrequency_max'' of
             Some v \<Rightarrow> ucast (v div 1000000) | None \<Rightarrow> - 1)
      | LINUX \<Rightarrow> 0)"

definition GetMaxCpuSpeed :: "build \<Rightarrow> host \<Rightarrow> system_info \<Rightarrow> int32 \<times> system_info" where
  "GetMaxCpuSpeed b h s =
     (if cpu_speed s \<noteq> 0 then (cpu_speed s, s)
      else let v = query_max_cpu_speed b h in (v, s\<lparr>cpu_speed := v\<rparr>))"

subsection \<open>\<^verbatim>\<open>GetMemorySize\<close> (lines 369-403)\<close>

text \<open>
  The two \<^verbatim>\<open>sysconf\<close> results are given after their cast to \<^verbatim>\<open>int64\<close>; the
  product is taken modulo \<open>2 ^ 64\<close>.
\<close>

definition query_memory_size :: "build \<Rightarrow> host \<Rightarrow> int64" where
  "query_memory_size b h =
     (case platform b of
        WIN32 \<Rightarrow> (case GlobalMemoryStatusEx h of Some ullTotalPhys \<Rightarrow> ullTotalPhys | None \<Rightarrow> - 1)
      | OSX \<Rightarrow>
          (case sysctl64 h ''hw.memsize'' of
             Some v \<Rightarrow> if v = 0 then - 1 else v | None \<Rightarrow> - 1)
      | IOS \<Rightarrow>
          (case sysctl64 h ''hw.memsize'' of
             Some v \<Rightarrow> if v = 0 then - 1 else v | None \<Rightarrow> - 1)
      | LINUX \<Rightarrow>
          (let m = sysconf_SC_PHYS_PAGES h * sysconf_SC_PAGESIZE h
           in if sint m < 0 then - 1 else m))"

definition GetMemorySize :: "build \<Rightarrow> host \<Rightarrow> system_info \<Rightarrow> int64 \<times> system_info" where
  "GetMemorySize b h s =
     (if memory s \<noteq> 0 then (memory s, s)
      else let v = query_memory_size b h in (v, s\<lparr>memory := v\<rparr>))"

subsection \<open>\<^verbatim>\<open>GetMachineModel\<close> (lines 410-429)\<close>

text \<open>
  \<^verbatim>\<open>machine_model_.assign(buffer, length - 1)\<close> takes \<^verbatim>\<open>length - 1\<close> bytes of the
  buffer. \<^verbatim>\<open>length\<close> is a \<^verbatim>\<open>size_t\<close>: when the call stored no byte at all,
  \<^verbatim>\<open>length - 1\<close> is the largest \<^verbatim>\<open>size_t\<close> and \<^verbatim>\<open>assign\<close> throws
  \<^verbatim>\<open>std::length_error\<close>, leaving the member as it was.
\<close>

datatype error = length_error

definition GetMachineModel ::
  "build \<Rightarrow> host \<Rightarrow> system_info \<Rightarrow> (error + string) \<times> system_info" where
  "GetMachineModel b h s =
     (if machine_model s \<noteq> [] then (Inr (machine_model s), s)
      else if platform b = OSX \<or> platform b = IOS then
        (case sysctl_buf h ''hw.model'' of
           Some buffer \<Rightarrow>
             if buffer = [] then (Inl length_error, s)
             else (Inr (butlast buffer), s\<lparr>machine_model := butlast buffer\<rparr>)
         | None \<Rightarrow> (Inr [], s\<lparr>machine_model := []\<rparr>))
      else (Inr ''Not available'', s\<lparr>machine_model := ''Not available''\<rparr>))"

subsection \<open>\<^verbatim>\<open>GetGpuInfo\<close> (lines 433-529)\<close>

text \<open>
  The two overloads of \<^verbatim>\<open>GetProperty\<close>, on the value the output pointer points to.
  A data property of four bytes is read as a little-endian \<^verbatim>\<open>UInt32\<close>.
\<close>

definition GetProperty_int :: "host \<Rightarrow> string \<Rightarrow> int32 \<Rightarrow> int32" where
  "GetProperty_int h name val =
     (case SearchForProperty h name of
        None \<Rightarrow> val
      | Some (CFNumber r) \<Rightarrow> store r val
      | Some (CFData d) \<Rightarrow>
          if length d = 4
          then of_char (d ! 0) + push_bit 8 (of_char (d ! 1))
               + push_bit 16 (of_char (d ! 2)) + push_bit 24 (of_char (d ! 3))
          else val
      | Some _ \<Rightarrow> val)"

definition GetProperty_string :: "host \<Rightarrow> string \<Rightarrow> string \<Rightarrow> string" where
  "GetProperty_string h name val =
     (case SearchForProperty h name of
        None \<Rightarrow> val
      | Some (CFString r) \<Rightarrow> store r val
      | Some (CFData d) \<Rightarrow> d
      | Some _ \<Rightarrow> val)"

text \<open>
  \<^verbatim>\<open>HIWORD\<close> and \<^verbatim>\<open>LOWORD\<close>, the macros of the Windows headers, give a
  \<^verbatim>\<open>WORD\<close> (16 bits, unsigned), which the stream prints in decimal.
\<close>

definition HIWORD :: "32 word \<Rightarrow> 16 word" where
  "HIWORD l = ucast (drop_bit 16 l AND 0xffff)"

definition LOWORD :: "32 word \<Rightarrow> 16 word" where
  "LOWORD l = ucast (l AND 0xffff)"

fun decimal :: "nat \<Rightarrow> string" where
  "decimal n =
     (if n < 10 then [char_of (48 + n)]
      else decimal (n div 10) @ [char_of (48 + n mod 10)])"

declare decimal.simps [simp del]

definition format_driver_version :: "32 word \<Rightarrow> 32 word \<Rightarrow> string" where
  "format_driver_version high low =
     decimal (unat (HIWORD high)) @ ''.'' @ decimal (unat (LOWORD high)) @ ''.'' @
     decimal (unat (HIWORD low)) @ ''.'' @ decimal (unat (LOWORD low))"

text \<open>
  The output pointer is \<open>None\<close> when null, else the structure it points to. The result
  is the returned flag, the structure after the call and the instance after the call.
  \<^verbatim>\<open>hr\<close> starts as \<^verbatim>\<open>E_FAIL\<close> and is assigned only when the library, the entry
  point and the object were all obtained.
\<close>

definition GetGpuInfo ::
  "build \<Rightarrow> host \<Rightarrow> system_info \<Rightarrow> GpuInfo option \<Rightarrow> bool \<times> GpuInfo option \<times> system_info" where
  "GetGpuInfo b h s info =
     (case info of
        None \<Rightarrow> (False, None, s)
      | Some i \<Rightarrow>
          if platform b = WIN32 \<and> \<not> EXCLUDE_D3D9 b then
            (let hr = (if LoadLibrary_d3d9 h \<and> GetProcAddress_Direct3DCreate9 h
                          \<and> Direct3DCreate9_ok h
                       then fst (GetAdapterIdentifier h) else E_FAIL);
                 identifier = snd (GetAdapterIdentifier h)
             in if hr \<noteq> D3D_OK then (False, Some i, s)
                else (True,
                      Some (i\<lparr> device_name := DeviceName identifier,
                                description := Description identifier,
                                vendor_id := VendorId identifier,
                                device_id := DeviceId identifier,
                                driver := Driver identifier,
                                driver_version :=
                                  format_driver_version (DriverVersion_HighPart identifier)
                                    (DriverVersion_LowPart identifier) \<rparr>),
                      s))
          else if platform b = OSX then
            (let i1 = i\<lparr>vendor_id := GetProperty_int h ''vendor-id'' (vendor_id i)\<rparr>;
                 i2 = i1\<lparr>device_id := GetProperty_int h ''device-id'' (device_id i1)\<rparr>;
                 i3 = i2\<lparr>description := GetProperty_string h ''model'' (description i2)\<rparr>
             in (True, Some i3, s))
          else (False, Some i, s))"

section \<open>Sequences of calls\<close>

text \<open>
  The four accessors of lines 286-303, as the calls a client can make in any order, and
  the run of a sequence of such calls on one instance: the values returned, in order,
  and the instance at the end.
\<close>

datatype plain_read = CpuCacheSize | CpuFamily | CpuModel | CpuStepping

fun plain_call :: "plain_read \<Rightarrow> system_info \<Rightarrow> int32 \<times> system_info" where
  "plain_call CpuCacheSize s = GetCpuCacheSize s"
| "plain_call CpuFamily s = GetCpuFamily s"
| "plain_call CpuModel s = GetCpuModel s"
| "plain_call CpuStepping s = GetCpuStepping s"

fun plain_calls :: "plain_read list \<Rightarrow> system_info \<Rightarrow> int32 list \<times> system_info" where
  "plain_calls [] s = ([], s)"
| "plain_calls (c # cs) s =
     (case plain_call c s of (v, s1) \<Rightarrow>
        (case plain_calls cs s1 of (vs, s2) \<Rightarrow> (v # vs, s2)))"

text \<open>The member each of the four reads.\<close>

fun plain_member :: "plain_read \<Rightarrow> system_info \<Rightarrow> int32" where
  "plain_member CpuCacheSize s = cache_size s"
| "plain_member CpuFamily s = cpu_family s"
| "plain_member CpuModel s = cpu_model s"
| "plain_member CpuStepping s = cpu_stepping s"

text \<open>
  The eleven accessors the interface calls stable, as calls on one instance, with the
  value a call returns (or the exception it leaves with).
\<close>

datatype stable_accessor =
    Call_GetMaxCpus | Call_GetMaxPhysicalCpus | Call_GetCpuArchitecture | Call_GetCpuVendor
  | Call_GetCpuCacheSize | Call_GetCpuFamily | Call_GetCpuModel | Call_GetCpuStepping
  | Call_GetMaxCpuSpeed | Call_GetMemorySize | Call_GetMachineModel

datatype returned =
    Ret_int int32 | Ret_int64 int64 | Ret_arch Architecture | Ret_string string
  | Ret_throws error

fun stable_call ::
  "build \<Rightarrow> host \<Rightarrow> stable_accessor \<Rightarrow> system_info \<Rightarrow> returned \<times> system_info" where
  "stable_call b h Call_GetMaxCpus s = map_prod Ret_int id (GetMaxCpus s)"
| "stable_call b h Call_GetMaxPhysicalCpus s = map_prod Ret_int id (GetMaxPhysicalCpus s)"
| "stable_call b h Call_GetCpuArchitecture s = map_prod Ret_arch id (GetCpuArchitecture s)"
| "stable_call b h Call_GetCpuVendor s = map_prod Ret_string id (GetCpuVendor b h s)"
| "stable_call b h Call_GetCpuCacheSize s = map_prod Ret_int id (GetCpuCacheSize s)"
| "stable_call b h Call_GetCpuFamily s = map_prod Ret_int id (GetCpuFamily s)"
| "stable_call b h Call_GetCpuModel s = map_prod Ret_int id (GetCpuModel s)"
| "stable_call b h Call_GetCpuStepping s = map_prod Ret_int id (GetCpuStepping s)"
| "stable_call b h Call_GetMaxCpuSpeed s = map_prod Ret_int id (GetMaxCpuSpeed b h s)"
| "stable_call b h Call_GetMemorySize s = map_prod Ret_int64 id (GetMemorySize b h s)"
| "stable_call b h Call_GetMachineModel s =
     map_prod (case_sum Ret_throws Ret_string) id (GetMachineModel b h s)"

text \<open>
  The values that mean "not resolved" and that no accessor keeps: a zero speed or
  memory size, an empty string, an exception.
\<close>

fun unresolved :: "returned \<Rightarrow> bool" where
  "unresolved (Ret_int v) = (v = 0)"
| "unresolved (Ret_int64 v) = (v = 0)"
| "unresolved (Ret_string v) = (v = [])"
| "unresolved (Ret_throws e) = True"
| "unresolved (Ret_arch a) = False"

text \<open>
  The four accessors that resolve their value at the first call (lines 267-284, 307-346,
  369-403, 410-429); the other seven only return a member.
\<close>

fun lazy_accessor :: "stable_accessor \<Rightarrow> bool" where
  "lazy_accessor Call_GetCpuVendor = True"
| "lazy_accessor Call_GetMaxCpuSpeed = True"
| "lazy_accessor Call_GetMemorySize = True"
| "lazy_accessor Call_GetMachineModel = True"
| "lazy_accessor a = False"

section \<open>The pattern of a driver version\<close>

text \<open>
  The pattern \<^verbatim>\<open>\d+\.\d+\.\d+\.\d+\<close> of the specification, matched against a whole
  string: \<open>digits1\<close> consumes one or more decimal digits (as many as there are) and
  gives the rest; \<open>dotted n\<close> is a run of digits followed by \<open>n\<close> groups of a dot
  and a run of digits.
\<close>

definition is_digit :: "char \<Rightarrow> bool" where
  "is_digit c = (48 \<le> (of_char c :: nat) \<and> (of_char c :: nat) \<le> 57)"

definition digits1 :: "string \<Rightarrow> string option" where
  "digits1 s =
     (case s of
        [] \<Rightarrow> None
      | c # r \<Rightarrow> if is_digit c then Some (dropWhile is_digit r) else None)"

fun dotted :: "nat \<Rightarrow> string \<Rightarrow> bool" where
  "dotted 0 s = (digits1 s = Some [])"
| "dotted (Suc n) s =
     (case digits1 s of
        Some (c # r) \<Rightarrow> c = CHR ''.'' \<and> dotted n r
      | _ \<Rightarrow> False)"

definition matches_dotted_quad :: "string \<Rightarrow> bool" where
  "matches_dotted_quad s = dotted 3 s"

section \<open>Concrete builds and hosts\<close>

text \<open>Five builds, by operating system and instruction set.\<close>

definition win32_x86 :: build where
  "win32_x86 = \<lparr> platform = WIN32, CPU_ARM = False, CPU_X86 = True,
                  x86_64 = False, i386 = True, EXCLUDE_D3D9 = False \<rparr>"

definition osx_x64 :: build where
  "osx_x64 = \<lparr> platform = OSX, CPU_ARM = False, CPU_X86 = True,
                x86_64 = True, i386 = False, EXCLUDE_D3D9 = False \<rparr>"

definition ios_arm :: build where
  "ios_arm = \<lparr> platform = IOS, CPU_ARM = True, CPU_X86 = False,
                x86_64 = False, i386 = False, EXCLUDE_D3D9 = False \<rparr>"

definition linux_x64 :: build where
  "linux_x64 = \<lparr> platform = LINUX, CPU_ARM = False, CPU_X86 = True,
                  x86_64 = True, i386 = False, EXCLUDE_D3D9 = False \<rparr>"

definition android_arm :: build where
  "android_arm = \<lparr> platform = LINUX, CPU_ARM = True, CPU_X86 = False,
                    x86_64 = False, i386 = False, EXCLUDE_D3D9 = False \<rparr>"

text \<open>
  A host on which every source fails or is absent: system calls return an error, the
  libraries and files are not there, the instruction answers zeros.
\<close>

definition no_identifier :: D3DADAPTER_IDENTIFIER9 where
  "no_identifier =
     \<lparr> Driver = [], Description = [], DeviceName = [],
       DriverVersion_HighPart = 0, DriverVersion_LowPart = 0, VendorId = 0, DeviceId = 0 \<rparr>"

definition silent_host :: host where
  "silent_host =
     \<lparr> dwNumberOfProcessors = 1, wProcessorLevel = 0, wProcessorRevision = 0,
       glpi_found = False, glpi = (\<lambda>n. GlpiFail 0),
       RegOpenKeyEx_ok = False, RegQueryValueEx_Mhz = None, GlobalMemoryStatusEx = None,
       LoadLibrary_d3d9 = False, GetProcAddress_Direct3DCreate9 = False,
       Direct3DCreate9_ok = False, GetAdapterIdentifier = (E_FAIL, no_identifier),
       sysctl32 = (\<lambda>name. None), sysctl64 = (\<lambda>name. None), sysctl_buf = (\<lambda>name. None),
       SearchForProperty = (\<lambda>name. None),
       proc_LoadFromSystem = False, proc_GetNumCpus = None, proc_GetNumPhysicalCpus = None,
       proc_GetCpuFamily = None, proc_GetSectionIntValue = (\<lambda>key. None),
       ReadCpuMaxFreq = - 1, sysconf_SC_PHYS_PAGES = - 1, sysconf_SC_PAGESIZE = - 1,
       cpuid = (\<lambda>leaf. (0, 0, 0, 0)) \<rparr>"

text \<open>A caller's structure before the call.\<close>

definition blank_gpu_info :: GpuInfo where
  "blank_gpu_info =
     \<lparr> device_name = [], description = [], vendor_id = 0, device_id = 0,
       driver = [], driver_version = [] \<rparr>"

text \<open>
  A Windows host whose Direct3D answers with driver version 9.18.10.2865, packed as
  \<^verbatim>\<open>HighPart = 0x00090012\<close> and \<^verbatim>\<open>LowPart = 0x000A0B31\<close>.
\<close>

definition d3d_host :: host where
  "d3d_host =
     silent_host
       \<lparr> LoadLibrary_d3d9 := True, GetProcAddress_Direct3DCreate9 := True,
         Direct3DCreate9_ok := True,
         GetAdapterIdentifier :=
           (D3D_OK, no_identifier\<lparr> DriverVersion_HighPart := 0x00090012,
                                     DriverVersion_LowPart := 0x000A0B31 \<rparr>) \<rparr>"

text \<open>
  A processor whose leaf 0 spells \<^verbatim>\<open>GenuineIntel\<close>: ebx = "Genu", edx = "ineI",
  ecx = "ntel".
\<close>

definition intel_host :: host where
  "intel_host =
     silent_host
       \<lparr> cpuid := (\<lambda>leaf. if leaf = 0 then (0x16, 0x756e6547, 0x6c65746e, 0x49656e69)
                           else (0, 0, 0, 0)) \<rparr>"

text \<open>
  A 64-bit x86 target compiled without the \<^verbatim>\<open>CPU_X86\<close> macro: the constructor
  compiles (line 129), the vendor falls to the last branch of lines 269-281.
\<close>

definition bare_x64 :: build where
  "bare_x64 = \<lparr> platform = LINUX, CPU_ARM = False, CPU_X86 = False,
                 x86_64 = True, i386 = False, EXCLUDE_D3D9 = False \<rparr>"

text \<open>
  Apple hosts whose \<^verbatim>\<open>hw.model\<close> is there: the kernel stores the name and its
  terminating zero byte. The second one names its machine "Not available".
\<close>

definition iphone_host :: host where
  "iphone_host =
     silent_host
       \<lparr> sysctl_buf := (\<lambda>name. if name = ''hw.model'' then Some (''iPhone5,1'' @ [CHR 0x00])
                                else None) \<rparr>"

definition odd_model_host :: host where
  "odd_model_host =
     silent_host
       \<lparr> sysctl_buf := (\<lambda>name. if name = ''hw.model'' then Some (''Not available'' @ [CHR 0x00])
                                else None) \<rparr>"

text \<open>A Windows host whose registry gives 2400 MHz.\<close>

definition registry_host :: host where
  "registry_host =
     silent_host \<lparr> RegOpenKeyEx_ok := True, RegQueryValueEx_Mhz := Some 2400 \<rparr>"

text \<open>
  A Linux host whose \<^verbatim>\<open>sysconf\<close> gives no physical page and pages of 4096 bytes, a
  Windows host whose \<^verbatim>\<open>GlobalMemoryStatusEx\<close> succeeds with a total of 0, and an
  Apple host whose \<^verbatim>\<open>hw.memsize\<close> is 0.
\<close>

definition zero_pages_host :: host where
  "zero_pages_host = silent_host \<lparr> sysconf_SC_PHYS_PAGES := 0, sysconf_SC_PAGESIZE := 4096 \<rparr>"

definition zero_total_host :: host where
  "zero_total_host = silent_host \<lparr> GlobalMemoryStatusEx := Some 0 \<rparr>"

definition zero_memsize_host :: host where
  "zero_memsize_host =
     silent_host \<lparr> sysctl64 := (\<lambda>name. if name = ''hw.memsize'' then Some 0 else None) \<rparr>"

text \<open>
  Apple hosts: one whose \<^verbatim>\<open>hw.cpufrequency_max\<close> answers 0, and a machine with four
  cores, eight threads and 2.4 GHz.
\<close>

definition zero_hz_host :: host where
  "zero_hz_host =
     silent_host
       \<lparr> sysctl64 := (\<lambda>name. if name = ''hw.cpufrequency_max'' then Some 0 else None) \<rparr>"

definition mac_host :: host where
  "mac_host =
     silent_host
       \<lparr> sysctl32 := (\<lambda>name. if name = ''hw.physicalcpu_max'' then Some 4
                              else if name = ''hw.logicalcpu_max'' then Some 8 else None),
         sysctl64 := (\<lambda>name. if name = ''hw.cpufrequency_max'' then Some 2400000000
                              else None) \<rparr>"

text \<open>An Apple host that reports eight threads and no count of cores.\<close>

definition threads_only_host :: host where
  "threads_only_host =
     silent_host
       \<lparr> sysctl32 := (\<lambda>name. if name = ''hw.logicalcpu_max'' then Some 8 else None) \<rparr>"

text \<open>
  Apple hosts that report four cores and no number of threads, and no core at all
  beside eight threads.
\<close>

definition cores_only_host :: host where
  "cores_only_host =
     silent_host
       \<lparr> sysctl32 := (\<lambda>name. if name = ''hw.physicalcpu_max'' then Some 4 else None) \<rparr>"

definition zero_cores_host :: host where
  "zero_cores_host =
     silent_host
       \<lparr> sysctl32 := (\<lambda>name. if name = ''hw.physicalcpu_max'' then Some 0
                              else if name = ''hw.logicalcpu_max'' then Some 8 else None) \<rparr>"

text \<open>A Linux host whose \<^verbatim>\<open>ProcCpuInfo\<close> counts sixteen processors and eight cores.\<close>

definition proc_host :: host where
  "proc_host =
     silent_host
       \<lparr> proc_LoadFromSystem := True, proc_GetNumCpus := Some 16,
         proc_GetNumPhysicalCpus := Some 8 \<rparr>"

text \<open>
  Windows hosts whose enumeration, after one call that asks for a larger buffer, lists
  eight cores where \<^verbatim>\<open>GetSystemInfo\<close> reports four processors (the latter counts at
  most 32 for a 32-bit process), and lists nothing where it reports none.
\<close>

definition eight_cores_host :: host where
  "eight_cores_host =
     silent_host
       \<lparr> dwNumberOfProcessors := 4, glpi_found := True,
         glpi := (\<lambda>n. if n = 0 then GlpiFail ERROR_INSUFFICIENT_BUFFER
                       else GlpiOk [RelationProcessorCore, RelationProcessorCore,
                                    RelationProcessorCore, RelationProcessorCore,
                                    RelationProcessorCore, RelationProcessorCore,
                                    RelationProcessorCore, RelationProcessorCore]) \<rparr>"

definition no_processors_host :: host where
  "no_processors_host =
     silent_host
       \<lparr> dwNumberOfProcessors := 0, glpi_found := True,
         glpi := (\<lambda>n. if n = 0 then GlpiFail ERROR_INSUFFICIENT_BUFFER else GlpiOk []) \<rparr>"

text \<open>
  A Windows host with four processors whose enumeration, after one call that asks for a
  larger buffer, lists a cache of 4 MiB and no core.
\<close>

definition no_cores_host :: host where
  "no_cores_host =
     silent_host
       \<lparr> dwNumberOfProcessors := 4, glpi_found := True,
         glpi := (\<lambda>n. if n = 0 then GlpiFail ERROR_INSUFFICIENT_BUFFER
                       else GlpiOk [RelationCache 4194304, RelationOther]) \<rparr>"

text \<open>
  Processors whose extended leaves go up to \<^verbatim>\<open>0x80000008\<close>: one reports an L2 cache
  of 4096 KB in bits 16-31 of ecx of leaf \<^verbatim>\<open>0x80000006\<close>, the other 32768 KB
  (\<^verbatim>\<open>0x8000\<close>, so bit 31 of ecx is set).
\<close>

definition l2_4m_host :: host where
  "l2_4m_host =
     silent_host
       \<lparr> cpuid := (\<lambda>leaf. if leaf = 0x80000000 then (0x80000008, 0, 0, 0)
                           else if leaf = 0x80000006 then (0, 0, 0x10000000, 0)
                           else (0, 0, 0, 0)) \<rparr>"

definition l2_32m_host :: host where
  "l2_32m_host =
     silent_host
       \<lparr> cpuid := (\<lambda>leaf. if leaf = 0x80000000 then (0x80000008, 0, 0, 0)
                           else if leaf = 0x80000006 then (0, 0, 0x80000000, 0)
                           else (0, 0, 0, 0)) \<rparr>"

section \<open>Frame properties\<close>

lemma plain_call_eq: "plain_call c s = (plain_member c s, s)"
  by (cases c)
    (simp_all add: GetCpuCacheSize_def GetCpuFamily_def GetCpuModel_def GetCpuStepping_def)

text \<open>
  Claim C10. \<^verbatim>\<open>GetCpuFamily\<close>, \<^verbatim>\<open>GetCpuModel\<close>, \<^verbatim>\<open>GetCpuStepping\<close> and
  \<^verbatim>\<open>GetCpuCacheSize\<close> are pure reads. They take neither the build nor the host, so
  no branch of the preprocessor and no source is involved; whatever sequence of these
  calls is made on an instance, every call returns the member as it stands (for a
  constructed instance, as the constructor left it), and the instance at the end is the
  instance at the start, field for field.
\<close>

theorem plain_reads_are_pure:
  "plain_calls cs s = (map (\<lambda>c. plain_member c s) cs, s)"
  by (induction cs) (simp_all add: plain_call_eq)

text \<open>
  Claim C8. Called with a null output pointer, \<^verbatim>\<open>GetGpuInfo\<close> returns false on
  every build and whatever the host would answer: the instance is returned as it was,
  there is still no output structure, and the result does not depend on any source.
\<close>

theorem GetGpuInfo_null:
  "GetGpuInfo b h s None = (False, None, s)"
  by (simp add: GetGpuInfo_def)

section \<open>The driver version\<close>

lemma mask16: "(0xffff :: 32 word) = mask 16"
  by (simp add: mask_eq_exp_minus_1)

lemma unat_HIWORD: "unat (HIWORD l) = unat l div 65536"
proof -
  have "unat l < 2 ^ 32"
    using unsigned_less [of l, where ?'a = nat] by simp
  then have "unat l div 65536 < 65536" by simp
  then show ?thesis
    by (simp add: HIWORD_def mask16 unsigned_ucast_eq unsigned_take_bit_eq unat_drop_bit_eq
        take_bit_eq_mod drop_bit_eq_div unat_div unat_mod flip: take_bit_eq_mask)
qed

lemma unat_LOWORD: "unat (LOWORD l) = unat l mod 65536"
  by (simp add: LOWORD_def mask16 unsigned_ucast_eq unsigned_take_bit_eq unat_div unat_mod
        take_bit_eq_mod flip: take_bit_eq_mask)

lemma is_digit_char_of: "(d::nat) < 10 \<Longrightarrow> is_digit (char_of (48 + d))"
  by (simp add: is_digit_def)

lemma decimal_digits: "decimal n \<noteq> [] \<and> (\<forall>c \<in> set (decimal n). is_digit c)"
proof (induction n rule: decimal.induct)
  case (1 n)
  show ?case
  proof (cases "n < 10")
    case True
    then show ?thesis
      by (subst decimal.simps, subst decimal.simps) (simp add: is_digit_char_of)
  next
    case False
    have "n mod 10 < 10" by simp
    then have "is_digit (char_of (48 + n mod 10))" by (rule is_digit_char_of)
    with False 1 show ?thesis
      by (subst decimal.simps, subst decimal.simps) simp
  qed
qed

lemma not_digit_dot: "\<not> is_digit CHR ''.''"
  by (simp add: is_digit_def)

lemma digits1_decimal_dot: "digits1 (decimal n @ CHR ''.'' # r) = Some (CHR ''.'' # r)"
proof -
  obtain c cs where d: "decimal n = c # cs"
    using decimal_digits [of n] by (cases "decimal n") auto
  have all: "\<forall>x \<in> set (c # cs). is_digit x"
    using decimal_digits [of n] d by simp
  then have "dropWhile is_digit (cs @ CHR ''.'' # r) = CHR ''.'' # r"
    by (simp add: dropWhile_append3 not_digit_dot)
  with all show ?thesis
    by (simp add: digits1_def d)
qed

lemma digits1_decimal_end: "digits1 (decimal n) = Some []"
proof -
  obtain c cs where d: "decimal n = c # cs"
    using decimal_digits [of n] by (cases "decimal n") auto
  have all: "\<forall>x \<in> set (c # cs). is_digit x"
    using decimal_digits [of n] d by simp
  then show ?thesis
    by (simp add: digits1_def d)
qed

lemma matches_four_decimals:
  "matches_dotted_quad (decimal a @ ''.'' @ decimal b @ ''.'' @ decimal c @ ''.'' @ decimal d)"
  by (simp add: matches_dotted_quad_def numeral_3_eq_3 digits1_decimal_dot digits1_decimal_end)

lemma format_driver_version_fields:
  "format_driver_version hi lo =
     decimal (unat hi div 65536) @ ''.'' @ decimal (unat hi mod 65536) @ ''.'' @
     decimal (unat lo div 65536) @ ''.'' @ decimal (unat lo mod 65536)"
  by (simp add: format_driver_version_def unat_HIWORD unat_LOWORD)

text \<open>
  Claim C7. \<^verbatim>\<open>GetGpuInfo\<close> writes \<^verbatim>\<open>driver_version\<close> only in the Direct3D branch
  (Win32 without \<^verbatim>\<open>EXCLUDE_D3D9\<close>). Whenever a call with a non-null output returns
  true there, the string is four decimal numbers joined by dots, in this order: the high
  16 bits of \<^verbatim>\<open>HighPart\<close>, its low 16 bits, the high 16 bits of \<^verbatim>\<open>LowPart\<close>, its
  low 16 bits; and the whole string matches \<^verbatim>\<open>\d+\.\d+\.\d+\.\d+\<close>. On every other
  build a successful call leaves \<^verbatim>\<open>driver_version\<close> as the caller had it.
\<close>

theorem driver_version_dotted_quad:
  assumes "GetGpuInfo b h s (Some i) = (True, Some i', s')"
  shows "if platform b = WIN32 \<and> \<not> EXCLUDE_D3D9 b
         then driver_version i' =
                decimal (unat (DriverVersion_HighPart (snd (GetAdapterIdentifier h))) div 65536)
                @ ''.'' @
                decimal (unat (DriverVersion_HighPart (snd (GetAdapterIdentifier h))) mod 65536)
                @ ''.'' @
                decimal (unat (DriverVersion_LowPart (snd (GetAdapterIdentifier h))) div 65536)
                @ ''.'' @
                decimal (unat (DriverVersion_LowPart (snd (GetAdapterIdentifier h))) mod 65536)
              \<and> matches_dotted_quad (driver_version i')
         else driver_version i' = driver_version i"
proof (cases "platform b = WIN32 \<and> \<not> EXCLUDE_D3D9 b")
  case True
  with assms have
    "driver_version i' =
       format_driver_version (DriverVersion_HighPart (snd (GetAdapterIdentifier h)))
         (DriverVersion_LowPart (snd (GetAdapterIdentifier h)))"
    by (auto simp: GetGpuInfo_def Let_def split: if_splits)
  then have fields: "driver_version i' =
       decimal (unat (DriverVersion_HighPart (snd (GetAdapterIdentifier h))) div 65536)
       @ ''.'' @
       decimal (unat (DriverVersion_HighPart (snd (GetAdapterIdentifier h))) mod 65536)
       @ ''.'' @
       decimal (unat (DriverVersion_LowPart (snd (GetAdapterIdentifier h))) div 65536)
       @ ''.'' @
       decimal (unat (DriverVersion_LowPart (snd (GetAdapterIdentifier h))) mod 65536)"
    by (simp only: format_driver_version_fields)
  have "matches_dotted_quad (driver_version i')"
    by (subst fields) (rule matches_four_decimals)
  with fields show ?thesis
    unfolding if_P [OF True] by (rule conjI)
next
  case False
  with assms have "driver_version i' = driver_version i"
    by (auto simp: GetGpuInfo_def Let_def split: if_splits)
  then show ?thesis
    unfolding if_not_P [OF False] .
qed

lemma GetGpuInfo_d3d_host:
  "GetGpuInfo win32_x86 d3d_host s (Some blank_gpu_info) =
     (True, Some (blank_gpu_info\<lparr>driver_version := ''9.18.10.2865''\<rparr>), s)"
  by (simp add: GetGpuInfo_def win32_x86_def d3d_host_def silent_host_def no_identifier_def
      blank_gpu_info_def D3D_OK_def format_driver_version_fields decimal.simps char_of_def
      bit_Suc_0_iff)

theorem driver_version_dotted_quad_witness:
  "GetGpuInfo win32_x86 d3d_host (SystemInfo_init SI_ARCH_X86) (Some blank_gpu_info) =
     (True, Some (blank_gpu_info\<lparr>driver_version := ''9.18.10.2865''\<rparr>),
      SystemInfo_init SI_ARCH_X86)
   \<and> matches_dotted_quad ''9.18.10.2865''"
proof -
  note run = GetGpuInfo_d3d_host [of "SystemInfo_init SI_ARCH_X86"]
  have cond: "platform win32_x86 = WIN32 \<and> \<not> EXCLUDE_D3D9 win32_x86"
    by (simp add: win32_x86_def)
  have "matches_dotted_quad
          (driver_version (blank_gpu_info\<lparr>driver_version := ''9.18.10.2865''\<rparr>))"
    by (rule driver_version_dotted_quad [OF run, unfolded if_P [OF cond], THEN conjunct2])
  then have "matches_dotted_quad ''9.18.10.2865''"
    by simp
  with run show ?thesis ..
qed

section \<open>The vendor string\<close>

lemma int_bytes_0: "int_bytes 0 = [CHR 0x00, CHR 0x00, CHR 0x00, CHR 0x00]"
  by (simp add: int_bytes_def byte_char_def char_of_def)

lemma length_int_bytes: "length (int_bytes w) = 4"
  by (simp add: int_bytes_def)

lemma c_str_terminator: "c_str (xs @ CHR 0x00 # ys) = c_str xs"
  by (induction xs) (simp_all add: c_str_def)

lemma c_str_no_zero: "CHR 0x00 \<notin> set xs \<Longrightarrow> c_str xs = xs"
  by (induction xs) (auto simp: c_str_def)

lemma vendor_string_eq:
  "vendor_string (eax, ebx, ecx, edx) = c_str (int_bytes ebx @ int_bytes edx @ int_bytes ecx)"
proof -
  have "c_str ((int_bytes ebx @ int_bytes edx @ int_bytes ecx) @ CHR 0x00 # [CHR 0x00, CHR 0x00, CHR 0x00])
        = c_str (int_bytes ebx @ int_bytes edx @ int_bytes ecx)"
    by (rule c_str_terminator)
  then show ?thesis
    by (simp add: vendor_string_def int_bytes_0)
qed

lemma cpu_vendor_cpuid [simp]: "cpu_vendor (SystemInfo_cpuid b h s) = cpu_vendor s"
  by (simp add: SystemInfo_cpuid_def split: prod.splits)

lemma cpu_vendor_apple [simp]: "cpu_vendor (SystemInfo_apple h s) = cpu_vendor s"
  by (simp add: SystemInfo_apple_def Let_def)

lemma cpu_vendor_linux [simp]: "cpu_vendor (SystemInfo_linux b h s) = cpu_vendor s"
  by (simp add: SystemInfo_linux_def Let_def)

lemma cpu_vendor_win32: "SystemInfo_win32 h s = Some s' \<Longrightarrow> cpu_vendor s' = cpu_vendor s"
  by (auto simp: SystemInfo_win32_def Let_def split: option.splits)

lemma SystemInfo_cpu_vendor:
  assumes "SystemInfo b h = Some s"
  shows "cpu_vendor s = []"
proof -
  from assms obtain a where a: "target_arch b = Some a"
    by (auto simp: SystemInfo_def split: option.splits)
  show ?thesis
  proof (cases "platform b")
    case WIN32
    with assms a obtain s1 where "SystemInfo_win32 h (SystemInfo_init a) = Some s1"
      and "s = SystemInfo_cpuid b h s1"
      by (auto simp: SystemInfo_def)
    then show ?thesis
      using cpu_vendor_win32 [of h "SystemInfo_init a" s1] by (simp add: SystemInfo_init_def)
  next
    case OSX
    with assms a show ?thesis by (auto simp: SystemInfo_def SystemInfo_init_def)
  next
    case IOS
    with assms a show ?thesis by (auto simp: SystemInfo_def SystemInfo_init_def)
  next
    case LINUX
    with assms a show ?thesis by (auto simp: SystemInfo_def SystemInfo_init_def)
  qed
qed

text \<open>
  Claim C5. On any instance whose stored vendor is empty (so at the first call, whatever
  other accessors were called before), an x86 build asks leaf 0 of the host and returns
  the twelve bytes of ebx, edx, ecx (the second, fourth and third registers, each lowest
  byte first) read as a C string: all twelve when none of them is zero, which is the
  case of a vendor tag of twelve ASCII characters. The string is stored in the instance.
  A build without \<^verbatim>\<open>CPU_X86\<close> returns \<^verbatim>\<open>ARM\<close> when \<^verbatim>\<open>CPU_ARM\<close> is defined and
  \<^verbatim>\<open>Undefined\<close> otherwise, whatever the host. Once the stored string is not empty, a
  call returns it and leaves the instance alone, whatever the host would answer: nothing
  is asked again. The constructor leaves the stored vendor empty.
\<close>

theorem GetCpuVendor_empty_and_cached:
  "(cpu_vendor s = [] \<longrightarrow>
      (CPU_X86 b \<and> cpuid h 0 = (eax, ebx, ecx, edx) \<longrightarrow>
         GetCpuVendor b h s =
           (c_str (int_bytes ebx @ int_bytes edx @ int_bytes ecx),
            s\<lparr>cpu_vendor := c_str (int_bytes ebx @ int_bytes edx @ int_bytes ecx)\<rparr>)
         \<and> length (int_bytes ebx @ int_bytes edx @ int_bytes ecx) = 12
         \<and> (CHR 0x00 \<notin> set (int_bytes ebx @ int_bytes edx @ int_bytes ecx) \<longrightarrow>
              fst (GetCpuVendor b h s) = int_bytes ebx @ int_bytes edx @ int_bytes ecx))
      \<and> (\<not> CPU_X86 b \<and> CPU_ARM b \<longrightarrow>
           GetCpuVendor b h s = (''ARM'', s\<lparr>cpu_vendor := ''ARM''\<rparr>))
      \<and> (\<not> CPU_X86 b \<and> \<not> CPU_ARM b \<longrightarrow>
           GetCpuVendor b h s = (''Undefined'', s\<lparr>cpu_vendor := ''Undefined''\<rparr>)))
   \<and> (cpu_vendor t \<noteq> [] \<longrightarrow> GetCpuVendor b h t = (cpu_vendor t, t))
   \<and> (SystemInfo b h0 = Some s0 \<longrightarrow> cpu_vendor s0 = [])"
proof -
  have cached: "cpu_vendor t \<noteq> [] \<longrightarrow> GetCpuVendor b h t = (cpu_vendor t, t)"
    by (simp add: GetCpuVendor_def)
  have fresh: "SystemInfo b h0 = Some s0 \<longrightarrow> cpu_vendor s0 = []"
    by (simp add: SystemInfo_cpu_vendor)
  have first: ?thesis if empty: "cpu_vendor s = []"
  proof -
    have x86: "GetCpuVendor b h s =
           (c_str (int_bytes ebx @ int_bytes edx @ int_bytes ecx),
            s\<lparr>cpu_vendor := c_str (int_bytes ebx @ int_bytes edx @ int_bytes ecx)\<rparr>)"
      if "CPU_X86 b" "cpuid h 0 = (eax, ebx, ecx, edx)"
      using that empty by (simp add: GetCpuVendor_def vendor_string_eq Let_def)
    have whole: "fst (GetCpuVendor b h s) = int_bytes ebx @ int_bytes edx @ int_bytes ecx"
      if "CPU_X86 b" "cpuid h 0 = (eax, ebx, ecx, edx)"
        "CHR 0x00 \<notin> set (int_bytes ebx @ int_bytes edx @ int_bytes ecx)"
      using x86 [OF that(1,2)] c_str_no_zero [OF that(3)] by simp
    have len: "length (int_bytes ebx @ int_bytes edx @ int_bytes ecx) = 12"
      by (simp add: length_int_bytes)
    have others: "\<not> CPU_X86 b \<and> CPU_ARM b \<longrightarrow>
           GetCpuVendor b h s = (''ARM'', s\<lparr>cpu_vendor := ''ARM''\<rparr>)"
       "\<not> CPU_X86 b \<and> \<not> CPU_ARM b \<longrightarrow>
           GetCpuVendor b h s = (''Undefined'', s\<lparr>cpu_vendor := ''Undefined''\<rparr>)"
      using empty by (simp_all add: GetCpuVendor_def Let_def)
    from x86 whole len others cached fresh show ?thesis by blast
  qed
  with cached fresh show ?thesis by blast
qed

lemma SystemInfo_osx_x64_silent:
  "SystemInfo osx_x64 silent_host = Some (SystemInfo_init SI_ARCH_X64)"
  by (simp add: SystemInfo_def target_arch_def osx_x64_def SystemInfo_apple_def store_def
      SystemInfo_cpuid_def silent_host_def SystemInfo_init_def)

lemma SystemInfo_ios_arm_silent:
  "SystemInfo ios_arm silent_host = Some (SystemInfo_init SI_ARCH_ARM)"
  by (simp add: SystemInfo_def target_arch_def ios_arm_def SystemInfo_apple_def store_def
      SystemInfo_cpuid_def silent_host_def SystemInfo_init_def)

lemma GenuineIntel_bytes:
  "int_bytes 0x756e6547 @ int_bytes 0x49656e69 @ int_bytes 0x6c65746e = ''GenuineIntel''"
  by (simp add: int_bytes_def byte_char_def char_of_def bit_Suc_0_iff)

theorem GetCpuVendor_empty_and_cached_witness:
  "GetCpuVendor osx_x64 intel_host (SystemInfo_init SI_ARCH_X64) =
       (''GenuineIntel'', (SystemInfo_init SI_ARCH_X64)\<lparr>cpu_vendor := ''GenuineIntel''\<rparr>)
   \<and> GetCpuVendor osx_x64 intel_host ((SystemInfo_init SI_ARCH_X64)\<lparr>memory := 8589934592\<rparr>) =
       (''GenuineIntel'',
        (SystemInfo_init SI_ARCH_X64)\<lparr>memory := 8589934592, cpu_vendor := ''GenuineIntel''\<rparr>)
   \<and> GetCpuVendor osx_x64 silent_host
         ((SystemInfo_init SI_ARCH_X64)\<lparr>cpu_vendor := ''GenuineIntel''\<rparr>) =
       (''GenuineIntel'', (SystemInfo_init SI_ARCH_X64)\<lparr>cpu_vendor := ''GenuineIntel''\<rparr>)
   \<and> GetCpuVendor ios_arm intel_host (SystemInfo_init SI_ARCH_ARM) =
       (''ARM'', (SystemInfo_init SI_ARCH_ARM)\<lparr>cpu_vendor := ''ARM''\<rparr>)
   \<and> GetCpuVendor bare_x64 intel_host (SystemInfo_init SI_ARCH_X64) =
       (''Undefined'', (SystemInfo_init SI_ARCH_X64)\<lparr>cpu_vendor := ''Undefined''\<rparr>)
   \<and> SystemInfo osx_x64 silent_host = Some (SystemInfo_init SI_ARCH_X64)
   \<and> cpu_vendor (SystemInfo_init SI_ARCH_X64) = []"
proof -
  have leaf0: "cpuid intel_host 0 = (0x16, 0x756e6547, 0x6c65746e, 0x49656e69)"
    by (simp add: intel_host_def silent_host_def)
  have tag: "c_str ''GenuineIntel'' = ''GenuineIntel''"
    by (simp add: c_str_def)
  have empty: "cpu_vendor (SystemInfo_init a) = []" for a
    by (simp add: SystemInfo_init_def)
  have empty': "cpu_vendor ((SystemInfo_init SI_ARCH_X64)\<lparr>memory := 8589934592\<rparr>) = []"
    by (simp add: SystemInfo_init_def)
  have x86: "CPU_X86 osx_x64" by (simp add: osx_x64_def)
  have arm: "\<not> CPU_X86 ios_arm \<and> CPU_ARM ios_arm" by (simp add: ios_arm_def)
  have bare: "\<not> CPU_X86 bare_x64 \<and> \<not> CPU_ARM bare_x64" by (simp add: bare_x64_def)
  have 1: "GetCpuVendor osx_x64 intel_host (SystemInfo_init SI_ARCH_X64) =
       (''GenuineIntel'', (SystemInfo_init SI_ARCH_X64)\<lparr>cpu_vendor := ''GenuineIntel''\<rparr>)"
    using GetCpuVendor_empty_and_cached
      [of "SystemInfo_init SI_ARCH_X64" osx_x64 intel_host
          "0x16" "0x756e6547" "0x6c65746e" "0x49656e69"]
      empty leaf0 x86
    by (simp only: GenuineIntel_bytes tag simp_thms)
  have m: "GetCpuVendor osx_x64 intel_host
              ((SystemInfo_init SI_ARCH_X64)\<lparr>memory := 8589934592\<rparr>) =
       (''GenuineIntel'',
        (SystemInfo_init SI_ARCH_X64)\<lparr>memory := 8589934592, cpu_vendor := ''GenuineIntel''\<rparr>)"
    using GetCpuVendor_empty_and_cached
      [of "(SystemInfo_init SI_ARCH_X64)\<lparr>memory := 8589934592\<rparr>" osx_x64 intel_host
          "0x16" "0x756e6547" "0x6c65746e" "0x49656e69"]
      empty' leaf0 x86
    by (simp only: GenuineIntel_bytes tag simp_thms)
  have 2: "GetCpuVendor osx_x64 silent_host
         ((SystemInfo_init SI_ARCH_X64)\<lparr>cpu_vendor := ''GenuineIntel''\<rparr>) =
       (''GenuineIntel'', (SystemInfo_init SI_ARCH_X64)\<lparr>cpu_vendor := ''GenuineIntel''\<rparr>)"
    using GetCpuVendor_empty_and_cached
      [of _ osx_x64 silent_host _ _ _ _
          "(SystemInfo_init SI_ARCH_X64)\<lparr>cpu_vendor := ''GenuineIntel''\<rparr>"]
    by simp
  have 3: "GetCpuVendor ios_arm intel_host (SystemInfo_init SI_ARCH_ARM) =
       (''ARM'', (SystemInfo_init SI_ARCH_ARM)\<lparr>cpu_vendor := ''ARM''\<rparr>)"
    using GetCpuVendor_empty_and_cached [of "SystemInfo_init SI_ARCH_ARM" ios_arm intel_host]
      empty arm
    by (simp only: simp_thms)
  have 4: "GetCpuVendor bare_x64 intel_host (SystemInfo_init SI_ARCH_X64) =
       (''Undefined'', (SystemInfo_init SI_ARCH_X64)\<lparr>cpu_vendor := ''Undefined''\<rparr>)"
    using GetCpuVendor_empty_and_cached [of "SystemInfo_init SI_ARCH_X64" bare_x64 intel_host]
      empty bare
    by (simp only: simp_thms)
  have 5: "cpu_vendor (SystemInfo_init SI_ARCH_X64) = []"
    using GetCpuVendor_empty_and_cached
      [of _ osx_x64 _ _ _ _ _ _ silent_host "SystemInfo_init SI_ARCH_X64"]
      SystemInfo_osx_x64_silent
    by blast
  from 1 m 2 3 4 5 SystemInfo_osx_x64_silent show ?thesis by blast
qed

section \<open>The machine model\<close>

text \<open>
  Claim C9. On OSX and IOS, when nothing is stored yet and \<^verbatim>\<open>hw.model\<close> cannot be
  read, the call returns the empty string and the instance is what it was, its stored
  model still empty. So the next call asks the source again: its outcome is what the
  host answers then, the name when the source now succeeds, the empty string when it
  fails again. \<^verbatim>\<open>Not available\<close> is what the other builds return and store; on OSX and
  IOS a call on an empty member returns these words only if the source itself stored
  them.
\<close>

theorem GetMachineModel_apple_failure:
  "((platform b = OSX \<or> platform b = IOS) \<and> machine_model s = []
      \<and> sysctl_buf h ''hw.model'' = None \<longrightarrow>
        GetMachineModel b h s = (Inr [], s)
      \<and> (\<forall>h' buffer. sysctl_buf h' ''hw.model'' = Some buffer \<and> buffer \<noteq> [] \<longrightarrow>
            GetMachineModel b h' (snd (GetMachineModel b h s)) =
              (Inr (butlast buffer), s\<lparr>machine_model := butlast buffer\<rparr>))
      \<and> (\<forall>h'. sysctl_buf h' ''hw.model'' = None \<longrightarrow>
            GetMachineModel b h' (snd (GetMachineModel b h s)) = (Inr [], s)))
   \<and> (platform b \<noteq> OSX \<and> platform b \<noteq> IOS \<and> machine_model s = [] \<longrightarrow>
        GetMachineModel b h s =
          (Inr ''Not available'', s\<lparr>machine_model := ''Not available''\<rparr>))
   \<and> ((platform b = OSX \<or> platform b = IOS) \<and> machine_model s = []
        \<and> fst (GetMachineModel b h s) = Inr ''Not available'' \<longrightarrow>
        (\<exists>buffer. sysctl_buf h ''hw.model'' = Some buffer
                  \<and> butlast buffer = ''Not available''))"
proof -
  have same: "s\<lparr>machine_model := []\<rparr> = s" if "machine_model s = []"
    using that by simp
  have fail: "GetMachineModel b h s = (Inr [], s)"
    if "platform b = OSX \<or> platform b = IOS" "machine_model s = []"
      "sysctl_buf h ''hw.model'' = None" for h
    using that same by (auto simp: GetMachineModel_def)
  have again: "GetMachineModel b h' s = (Inr (butlast buffer), s\<lparr>machine_model := butlast buffer\<rparr>)"
    if "platform b = OSX \<or> platform b = IOS" "machine_model s = []"
      "sysctl_buf h' ''hw.model'' = Some buffer" "buffer \<noteq> []" for h' buffer
    using that by (auto simp: GetMachineModel_def)
  have other: "platform b \<noteq> OSX \<and> platform b \<noteq> IOS \<and> machine_model s = [] \<longrightarrow>
        GetMachineModel b h s =
          (Inr ''Not available'', s\<lparr>machine_model := ''Not available''\<rparr>)"
    by (simp add: GetMachineModel_def)
  have only: "(platform b = OSX \<or> platform b = IOS) \<and> machine_model s = []
        \<and> fst (GetMachineModel b h s) = Inr ''Not available'' \<longrightarrow>
        (\<exists>buffer. sysctl_buf h ''hw.model'' = Some buffer
                  \<and> butlast buffer = ''Not available'')"
    by (auto simp: GetMachineModel_def split: option.splits if_splits)
  from fail again other only show ?thesis
    by (simp (no_asm_simp))
qed

theorem GetMachineModel_apple_failure_witness:
  "GetMachineModel ios_arm silent_host (SystemInfo_init SI_ARCH_ARM) =
     (Inr [], SystemInfo_init SI_ARCH_ARM)
   \<and> GetMachineModel ios_arm iphone_host
        (snd (GetMachineModel ios_arm silent_host (SystemInfo_init SI_ARCH_ARM))) =
     (Inr ''iPhone5,1'', (SystemInfo_init SI_ARCH_ARM)\<lparr>machine_model := ''iPhone5,1''\<rparr>)
   \<and> GetMachineModel ios_arm silent_host
        (snd (GetMachineModel ios_arm silent_host (SystemInfo_init SI_ARCH_ARM))) =
     (Inr [], SystemInfo_init SI_ARCH_ARM)
   \<and> GetMachineModel android_arm iphone_host (SystemInfo_init SI_ARCH_ARM) =
     (Inr ''Not available'', (SystemInfo_init SI_ARCH_ARM)\<lparr>machine_model := ''Not available''\<rparr>)
   \<and> fst (GetMachineModel ios_arm odd_model_host (SystemInfo_init SI_ARCH_ARM)) =
       Inr ''Not available''
   \<and> (\<exists>buffer. sysctl_buf odd_model_host ''hw.model'' = Some buffer
                \<and> butlast buffer = ''Not available'')"
proof -
  have apple: "platform ios_arm = OSX \<or> platform ios_arm = IOS"
    by (simp add: ios_arm_def)
  have empty: "machine_model (SystemInfo_init SI_ARCH_ARM) = []"
    by (simp add: SystemInfo_init_def)
  have none: "sysctl_buf silent_host ''hw.model'' = None"
    by (simp add: silent_host_def)
  have some: "sysctl_buf iphone_host ''hw.model'' = Some (''iPhone5,1'' @ [CHR 0x00])
              \<and> ''iPhone5,1'' @ [CHR 0x00] \<noteq> []"
    by (simp add: iphone_host_def silent_host_def)
  have linux: "platform android_arm \<noteq> OSX \<and> platform android_arm \<noteq> IOS"
    by (simp add: android_arm_def)
  have odd: "fst (GetMachineModel ios_arm odd_model_host (SystemInfo_init SI_ARCH_ARM)) =
       Inr ''Not available''"
    by (simp add: GetMachineModel_def ios_arm_def odd_model_host_def silent_host_def
        SystemInfo_init_def)
  note thm1 = GetMachineModel_apple_failure
      [of ios_arm "SystemInfo_init SI_ARCH_ARM" silent_host]
  from thm1 apple empty none
  have a: "GetMachineModel ios_arm silent_host (SystemInfo_init SI_ARCH_ARM) =
     (Inr [], SystemInfo_init SI_ARCH_ARM)"
    by blast
  from thm1 apple empty none some
  have b: "GetMachineModel ios_arm iphone_host
        (snd (GetMachineModel ios_arm silent_host (SystemInfo_init SI_ARCH_ARM))) =
     (Inr (butlast (''iPhone5,1'' @ [CHR 0x00])),
      (SystemInfo_init SI_ARCH_ARM)\<lparr>machine_model := butlast (''iPhone5,1'' @ [CHR 0x00])\<rparr>)"
    by blast
  from thm1 apple empty none
  have c: "GetMachineModel ios_arm silent_host
        (snd (GetMachineModel ios_arm silent_host (SystemInfo_init SI_ARCH_ARM))) =
     (Inr [], SystemInfo_init SI_ARCH_ARM)"
    by blast
  from GetMachineModel_apple_failure [of android_arm "SystemInfo_init SI_ARCH_ARM" iphone_host]
    linux empty
  have d: "GetMachineModel android_arm iphone_host (SystemInfo_init SI_ARCH_ARM) =
     (Inr ''Not available'', (SystemInfo_init SI_ARCH_ARM)\<lparr>machine_model := ''Not available''\<rparr>)"
    by blast
  from GetMachineModel_apple_failure [of ios_arm "SystemInfo_init SI_ARCH_ARM" odd_model_host]
    apple empty odd
  have e: "\<exists>buffer. sysctl_buf odd_model_host ''hw.model'' = Some buffer
                \<and> butlast buffer = ''Not available''"
    by blast
  from b have b': "GetMachineModel ios_arm iphone_host
        (snd (GetMachineModel ios_arm silent_host (SystemInfo_init SI_ARCH_ARM))) =
     (Inr ''iPhone5,1'', (SystemInfo_init SI_ARCH_ARM)\<lparr>machine_model := ''iPhone5,1''\<rparr>)"
    by simp
  from a b' c d odd e show ?thesis by blast
qed

section \<open>Repeated calls\<close>

text \<open>
  Claim C6, amended. A call followed by the same call on the instance the first one
  left returns the same value and leaves the same instance, whatever the sources answer
  by the second call (host \<open>h'\<close>), for the seven accessors that only return a member,
  and for \<^verbatim>\<open>GetCpuVendor\<close>, \<^verbatim>\<open>GetMaxCpuSpeed\<close>, \<^verbatim>\<open>GetMemorySize\<close> and
  \<^verbatim>\<open>GetMachineModel\<close> whenever the first value is neither 0 nor the empty string (nor
  an exception): -1, \<^verbatim>\<open>Undefined\<close> and \<^verbatim>\<open>Not available\<close> are kept. When
  \<^verbatim>\<open>GetCpuVendor\<close>, \<^verbatim>\<open>GetMaxCpuSpeed\<close> or \<^verbatim>\<open>GetMachineModel\<close> returns 0 or the
  empty string, the instance is what it was before the call, so the second call probes
  again and returns what a first call returns on the sources as they answer then.
\<close>

theorem stable_accessors_repeat:
  "(\<not> lazy_accessor a \<or> \<not> unresolved (fst (stable_call b h a s)) \<longrightarrow>
      stable_call b h' a (snd (stable_call b h a s)) = stable_call b h a s)
   \<and> ((a = Call_GetCpuVendor \<or> a = Call_GetMaxCpuSpeed \<or> a = Call_GetMachineModel)
        \<and> unresolved (fst (stable_call b h a s)) \<longrightarrow>
        snd (stable_call b h a s) = s
        \<and> stable_call b h' a (snd (stable_call b h a s)) = stable_call b h' a s)"
proof (cases a)
  case Call_GetCpuVendor
  then show ?thesis
    by (simp add: GetCpuVendor_def Let_def)
next
  case Call_GetMaxCpuSpeed
  then show ?thesis
    by (simp add: GetMaxCpuSpeed_def Let_def)
next
  case Call_GetMemorySize
  then show ?thesis
    by (simp add: GetMemorySize_def Let_def)
next
  case Call_GetMachineModel
  then show ?thesis
    by (auto simp: GetMachineModel_def split: option.splits)
qed (simp_all add: GetMaxCpus_def GetMaxPhysicalCpus_def GetCpuArchitecture_def
    GetCpuCacheSize_def GetCpuFamily_def GetCpuModel_def GetCpuStepping_def)

text \<open>
  The claim as it was written fails for the values that mean "not resolved": on an IOS
  build whose \<^verbatim>\<open>hw.model\<close> cannot be read at the first call and can at the second, the
  two calls return the empty string and then the name; with \<^verbatim>\<open>hw.cpufrequency_max\<close>
  answering 0 and then 2400000000, \<^verbatim>\<open>GetMaxCpuSpeed\<close> returns 0 and then 2400.
\<close>

lemma model_silent_then_iphone:
  "stable_call ios_arm silent_host Call_GetMachineModel (SystemInfo_init SI_ARCH_ARM) =
     (Ret_string [], SystemInfo_init SI_ARCH_ARM)"
  "stable_call ios_arm iphone_host Call_GetMachineModel (SystemInfo_init SI_ARCH_ARM) =
     (Ret_string ''iPhone5,1'',
      (SystemInfo_init SI_ARCH_ARM)\<lparr>machine_model := ''iPhone5,1''\<rparr>)"
  by (simp_all add: GetMachineModel_def ios_arm_def silent_host_def iphone_host_def
      SystemInfo_init_def)

lemma speed_zero_then_mac:
  "stable_call ios_arm zero_hz_host Call_GetMaxCpuSpeed (SystemInfo_init SI_ARCH_ARM) =
     (Ret_int 0, SystemInfo_init SI_ARCH_ARM)"
  "stable_call ios_arm mac_host Call_GetMaxCpuSpeed (SystemInfo_init SI_ARCH_ARM) =
     (Ret_int 2400, (SystemInfo_init SI_ARCH_ARM)\<lparr>cpu_speed := 2400\<rparr>)"
  by (simp_all add: GetMaxCpuSpeed_def query_max_cpu_speed_def ios_arm_def silent_host_def
      zero_hz_host_def mac_host_def SystemInfo_init_def Let_def)

theorem stable_accessors_can_differ:
  "SystemInfo ios_arm silent_host = Some (SystemInfo_init SI_ARCH_ARM)
   \<and> fst (stable_call ios_arm silent_host Call_GetMachineModel (SystemInfo_init SI_ARCH_ARM))
       = Ret_string []
   \<and> fst (stable_call ios_arm iphone_host Call_GetMachineModel
            (snd (stable_call ios_arm silent_host Call_GetMachineModel
                    (SystemInfo_init SI_ARCH_ARM))))
       = Ret_string ''iPhone5,1''
   \<and> fst (stable_call ios_arm zero_hz_host Call_GetMaxCpuSpeed (SystemInfo_init SI_ARCH_ARM))
       = Ret_int 0
   \<and> fst (stable_call ios_arm mac_host Call_GetMaxCpuSpeed
            (snd (stable_call ios_arm zero_hz_host Call_GetMaxCpuSpeed
                    (SystemInfo_init SI_ARCH_ARM))))
       = Ret_int 2400"
  by (simp del: stable_call.simps
      add: model_silent_then_iphone speed_zero_then_mac SystemInfo_ios_arm_silent)

theorem stable_accessors_repeat_witness:
  "fst (stable_call win32_x86 silent_host Call_GetMaxCpuSpeed (SystemInfo_init SI_ARCH_X86))
     = Ret_int (- 1)
   \<and> stable_call win32_x86 registry_host Call_GetMaxCpuSpeed
        (snd (stable_call win32_x86 silent_host Call_GetMaxCpuSpeed (SystemInfo_init SI_ARCH_X86)))
     = stable_call win32_x86 silent_host Call_GetMaxCpuSpeed (SystemInfo_init SI_ARCH_X86)
   \<and> stable_call osx_x64 mac_host Call_GetMaxCpus
        (snd (stable_call osx_x64 silent_host Call_GetMaxCpus (SystemInfo_init SI_ARCH_X64)))
     = stable_call osx_x64 silent_host Call_GetMaxCpus (SystemInfo_init SI_ARCH_X64)
   \<and> unresolved
        (fst (stable_call ios_arm silent_host Call_GetMachineModel (SystemInfo_init SI_ARCH_ARM)))
   \<and> snd (stable_call ios_arm silent_host Call_GetMachineModel (SystemInfo_init SI_ARCH_ARM))
       = SystemInfo_init SI_ARCH_ARM
   \<and> stable_call ios_arm iphone_host Call_GetMachineModel
        (snd (stable_call ios_arm silent_host Call_GetMachineModel (SystemInfo_init SI_ARCH_ARM)))
     = stable_call ios_arm iphone_host Call_GetMachineModel (SystemInfo_init SI_ARCH_ARM)"
proof -
  have r: "fst (stable_call win32_x86 silent_host Call_GetMaxCpuSpeed
                 (SystemInfo_init SI_ARCH_X86)) = Ret_int (- 1)"
    by (simp add: GetMaxCpuSpeed_def query_max_cpu_speed_def win32_x86_def silent_host_def
        SystemInfo_init_def Let_def)
  then have u: "\<not> unresolved (fst (stable_call win32_x86 silent_host Call_GetMaxCpuSpeed
                 (SystemInfo_init SI_ARCH_X86)))"
    by simp
  have a: "stable_call win32_x86 registry_host Call_GetMaxCpuSpeed
        (snd (stable_call win32_x86 silent_host Call_GetMaxCpuSpeed (SystemInfo_init SI_ARCH_X86)))
     = stable_call win32_x86 silent_host Call_GetMaxCpuSpeed (SystemInfo_init SI_ARCH_X86)"
    using stable_accessors_repeat
      [of Call_GetMaxCpuSpeed win32_x86 silent_host "SystemInfo_init SI_ARCH_X86" registry_host]
      u by blast
  have p: "\<not> lazy_accessor Call_GetMaxCpus" by simp
  have b: "stable_call osx_x64 mac_host Call_GetMaxCpus
        (snd (stable_call osx_x64 silent_host Call_GetMaxCpus (SystemInfo_init SI_ARCH_X64)))
     = stable_call osx_x64 silent_host Call_GetMaxCpus (SystemInfo_init SI_ARCH_X64)"
    using stable_accessors_repeat
      [of Call_GetMaxCpus osx_x64 silent_host "SystemInfo_init SI_ARCH_X64" mac_host]
      p by blast
  have e: "unresolved
        (fst (stable_call ios_arm silent_host Call_GetMachineModel (SystemInfo_init SI_ARCH_ARM)))"
    by (simp del: stable_call.simps add: model_silent_then_iphone)
  have c: "snd (stable_call ios_arm silent_host Call_GetMachineModel (SystemInfo_init SI_ARCH_ARM))
       = SystemInfo_init SI_ARCH_ARM
     \<and> stable_call ios_arm iphone_host Call_GetMachineModel
        (snd (stable_call ios_arm silent_host Call_GetMachineModel (SystemInfo_init SI_ARCH_ARM)))
     = stable_call ios_arm iphone_host Call_GetMachineModel (SystemInfo_init SI_ARCH_ARM)"
    using stable_accessors_repeat
      [of Call_GetMachineModel ios_arm silent_host "SystemInfo_init SI_ARCH_ARM" iphone_host]
      e by blast
  from r a b e c show ?thesis by blast
qed

section \<open>The clock speed\<close>







section \<open>The memory size\<close>

lemma GetMemorySize_cached:
  "memory s \<noteq> 0 \<Longrightarrow> GetMemorySize b h s = (memory s, s)"
  by (simp add: GetMemorySize_def)

lemma GetMemorySize_apple_zero:
  "platform b = OSX \<or> platform b = IOS \<Longrightarrow> memory s = 0 \<Longrightarrow>
   sysctl64 h ''hw.memsize'' = Some 0 \<Longrightarrow>
     GetMemorySize b h s = (- 1, s\<lparr>memory := - 1\<rparr>)"
  by (auto simp: GetMemorySize_def query_memory_size_def Let_def)

text \<open>
  Claim C2. The code does not do what the claim says on two of its three branches.
  Only lines 388-390 (OSX, IOS) turn a size of 0 into -1. On the Linux branch the
  product of \<^verbatim>\<open>sysconf(_SC_PHYS_PAGES) = 0\<close> and \<^verbatim>\<open>sysconf(_SC_PAGESIZE) = 4096\<close> is
  0, the test of line 394 is \<^verbatim>\<open>memory_ < 0\<close>, and the call returns 0 with nothing
  stored; on Win32 a \<^verbatim>\<open>GlobalMemoryStatusEx\<close> that succeeds with a total of 0 is
  returned as 0. The Apple branch returns -1 for the same answer.
\<close>

theorem GetMemorySize_zero_kept:
  "GetMemorySize linux_x64 zero_pages_host (SystemInfo_init SI_ARCH_X64) =
     (0, SystemInfo_init SI_ARCH_X64)
   \<and> GetMemorySize win32_x86 zero_total_host (SystemInfo_init SI_ARCH_X86) =
     (0, SystemInfo_init SI_ARCH_X86)
   \<and> GetMemorySize osx_x64 zero_memsize_host (SystemInfo_init SI_ARCH_X64) =
     (- 1, (SystemInfo_init SI_ARCH_X64)\<lparr>memory := - 1\<rparr>)"
  by (simp add: GetMemorySize_def query_memory_size_def linux_x64_def win32_x86_def osx_x64_def
      zero_pages_host_def zero_total_host_def zero_memsize_host_def silent_host_def
      SystemInfo_init_def Let_def)

section \<open>The processor counts\<close>

lemma counts_cpuid [simp]:
  "logical_cpus (SystemInfo_cpuid b h s) = logical_cpus s"
  "physical_cpus (SystemInfo_cpuid b h s) = physical_cpus s"
  by (simp_all add: SystemInfo_cpuid_def split: prod.splits)

lemma SystemInfo_platform:
  assumes "SystemInfo b h = Some s"
  obtains a s1 where "platform b = WIN32" "SystemInfo_win32 h (SystemInfo_init a) = Some s1"
      "s = SystemInfo_cpuid b h s1"
  | a where "platform b = OSX \<or> platform b = IOS"
      "s = SystemInfo_cpuid b h (SystemInfo_apple h (SystemInfo_init a))"
  | a where "platform b = LINUX"
      "s = SystemInfo_cpuid b h (SystemInfo_linux b h (SystemInfo_init a))"
proof -
  from assms obtain a where a: "target_arch b = Some a"
    by (auto simp: SystemInfo_def split: option.splits)
  show thesis
  proof (cases "platform b")
    case WIN32
    with assms a that(1) show ?thesis by (auto simp: SystemInfo_def)
  next
    case OSX
    with assms a that(2) show ?thesis by (auto simp: SystemInfo_def)
  next
    case IOS
    with assms a that(2) show ?thesis by (auto simp: SystemInfo_def)
  next
    case LINUX
    with assms a that(3) show ?thesis by (auto simp: SystemInfo_def)
  qed
qed

lemma init_counts [simp]:
  "logical_cpus (SystemInfo_init a) = 1" "physical_cpus (SystemInfo_init a) = 1"
  by (simp_all add: SystemInfo_init_def)

lemma count_infos_cores:
  "fst (count_infos infos (p, c)) = p + of_nat (count_list infos RelationProcessorCore)"
proof (induction infos arbitrary: p c)
  case Nil
  then show ?case by simp
next
  case (Cons i infos)
  then show ?case by (cases i) simp_all
qed

lemma win32_counts:
  assumes "SystemInfo_win32 h s = Some s'"
  shows "logical_cpus s' = dwNumberOfProcessors h"
    and "1 \<le> sint (dwNumberOfProcessors h) \<Longrightarrow> 1 \<le> sint (physical_cpus s')"
    and "glpi_found h \<Longrightarrow> glpi_loop (glpi h) 0 = Some (Some infos) \<Longrightarrow>
         physical_cpus s' =
           (if sint (of_nat (count_list infos RelationProcessorCore) :: int32) \<le> 0
            then dwNumberOfProcessors h
            else of_nat (count_list infos RelationProcessorCore))"
    and "physical_cpus s = 1 \<Longrightarrow> 1 \<le> sint (dwNumberOfProcessors h) \<Longrightarrow>
         (\<And>is. glpi_found h \<Longrightarrow> glpi_loop (glpi h) 0 = Some (Some is) \<Longrightarrow>
            sint (of_nat (count_list is RelationProcessorCore) :: int32)
              \<le> sint (dwNumberOfProcessors h)) \<Longrightarrow>
         sint (physical_cpus s') \<le> sint (dwNumberOfProcessors h)"
proof -
  from assms obtain p c where
    gpi: "GetProcessorInformation h (physical_cpus s, cache_size s) = Some (p, c)"
    and phys: "physical_cpus s' = (if sint p \<le> 0 then dwNumberOfProcessors h else p)"
    and log: "logical_cpus s' = dwNumberOfProcessors h"
    by (auto simp: SystemInfo_win32_def Let_def split: option.splits)
  from log show "logical_cpus s' = dwNumberOfProcessors h" .
  from phys show "1 \<le> sint (physical_cpus s')" if "1 \<le> sint (dwNumberOfProcessors h)"
    using that by (cases "sint p \<le> 0") simp_all
  have listed: "p = of_nat (count_list is RelationProcessorCore)"
    if "glpi_found h" "glpi_loop (glpi h) 0 = Some (Some is)" for "is"
  proof -
    from that gpi have "(p, c) = count_infos is (0, 0)"
      by (simp add: GetProcessorInformation_def)
    then show ?thesis
      using count_infos_cores [of "is" 0 0] by (metis add_0 fst_conv)
  qed
  show "physical_cpus s' =
           (if sint (of_nat (count_list infos RelationProcessorCore) :: int32) \<le> 0
            then dwNumberOfProcessors h
            else of_nat (count_list infos RelationProcessorCore))"
    if "glpi_found h" "glpi_loop (glpi h) 0 = Some (Some infos)"
    using listed [OF that] phys by simp
  show "sint (physical_cpus s') \<le> sint (dwNumberOfProcessors h)"
    if one: "physical_cpus s = 1" and pos: "1 \<le> sint (dwNumberOfProcessors h)"
      and le: "\<And>is. glpi_found h \<Longrightarrow> glpi_loop (glpi h) 0 = Some (Some is) \<Longrightarrow>
            sint (of_nat (count_list is RelationProcessorCore) :: int32)
              \<le> sint (dwNumberOfProcessors h)"
  proof (cases "glpi_found h")
    case False
    with gpi one have "p = 1" by (simp add: GetProcessorInformation_def)
    with phys pos show ?thesis by simp
  next
    case True
    show ?thesis
    proof (cases "glpi_loop (glpi h) 0")
      case None
      with True gpi show ?thesis by (simp add: GetProcessorInformation_def)
    next
      case (Some r)
      show ?thesis
      proof (cases r)
        case None
        with True Some gpi one have "p = 1" by (simp add: GetProcessorInformation_def)
        with phys pos show ?thesis by simp
      next
        case (Some "is")
        with True \<open>glpi_loop (glpi h) 0 = Some r\<close>
        have l: "glpi_loop (glpi h) 0 = Some (Some is)" by simp
        from listed [OF True l] le [OF True l] phys show ?thesis by simp
      qed
    qed
  qed
qed

lemma apple_counts:
  "logical_cpus (SystemInfo_apple h s) = store (sysctl32 h ''hw.logicalcpu_max'') (logical_cpus s)"
  "physical_cpus (SystemInfo_apple h s) =
     store (sysctl32 h ''hw.physicalcpu_max'') (physical_cpus s)"
  by (simp_all add: SystemInfo_apple_def Let_def)

lemma linux_counts:
  "logical_cpus (SystemInfo_linux b h s) =
     (if proc_LoadFromSystem h then store (proc_GetNumCpus h) (logical_cpus s)
      else logical_cpus s)"
  "physical_cpus (SystemInfo_linux b h s) =
     (if proc_LoadFromSystem h then store (proc_GetNumPhysicalCpus h) (physical_cpus s)
      else physical_cpus s)"
  by (simp_all add: SystemInfo_linux_def Let_def)

lemma store_lower:
  "(\<forall>q. r = Some q \<longrightarrow> 1 \<le> sint q) \<Longrightarrow> 1 \<le> sint (store r (1 :: int32))"
  by (cases r) (simp_all add: store_def)

lemma store_upper:
  "1 \<le> sint (n :: int32) \<Longrightarrow> (\<forall>q. r = Some q \<longrightarrow> sint q \<le> sint n) \<Longrightarrow>
     sint (store r (1 :: int32)) \<le> sint n"
  by (cases r) (simp_all add: store_def)

text \<open>
  Claim C3, amended. On a constructed instance every count that a source reports is
  returned as reported: on Win32 the logical count is \<^verbatim>\<open>dwNumberOfProcessors\<close> and,
  when the enumeration of processors completes, the physical count is the number of
  cores it lists, or the logical count when it lists none; on OSX, IOS and Linux each
  count is the one its source stores. The physical count is at least 1 unless a source
  reports a number of cores below 1 (on Win32: unless the number of processors is
  below 1), and it is at most the logical count whenever the logical count is at least
  1 and no source reports more cores than that. No branch compares the two counts.
\<close>

theorem cpu_counts_as_reported:
  "SystemInfo b h = Some s \<longrightarrow>
     (platform b = WIN32 \<longrightarrow>
        fst (GetMaxCpus s) = dwNumberOfProcessors h
        \<and> (glpi_found h \<and> glpi_loop (glpi h) 0 = Some (Some infos) \<longrightarrow>
             fst (GetMaxPhysicalCpus s) =
               (if sint (of_nat (count_list infos RelationProcessorCore) :: int32) \<le> 0
                then fst (GetMaxCpus s)
                else of_nat (count_list infos RelationProcessorCore)))
        \<and> (1 \<le> sint (fst (GetMaxCpus s)) \<longrightarrow> 1 \<le> sint (fst (GetMaxPhysicalCpus s)))
        \<and> (1 \<le> sint (fst (GetMaxCpus s))
             \<and> (\<forall>is. glpi_found h \<and> glpi_loop (glpi h) 0 = Some (Some is) \<longrightarrow>
                    sint (of_nat (count_list is RelationProcessorCore) :: int32)
                      \<le> sint (fst (GetMaxCpus s))) \<longrightarrow>
             sint (fst (GetMaxPhysicalCpus s)) \<le> sint (fst (GetMaxCpus s))))
   \<and> (platform b = OSX \<or> platform b = IOS \<longrightarrow>
        (sysctl32 h ''hw.logicalcpu_max'' = Some l \<longrightarrow> fst (GetMaxCpus s) = l)
        \<and> (sysctl32 h ''hw.physicalcpu_max'' = Some p \<longrightarrow> fst (GetMaxPhysicalCpus s) = p)
        \<and> ((\<forall>q. sysctl32 h ''hw.physicalcpu_max'' = Some q \<longrightarrow> 1 \<le> sint q) \<longrightarrow>
             1 \<le> sint (fst (GetMaxPhysicalCpus s)))
        \<and> (1 \<le> sint (fst (GetMaxCpus s))
             \<and> (\<forall>q. sysctl32 h ''hw.physicalcpu_max'' = Some q \<longrightarrow>
                    sint q \<le> sint (fst (GetMaxCpus s))) \<longrightarrow>
             sint (fst (GetMaxPhysicalCpus s)) \<le> sint (fst (GetMaxCpus s))))
   \<and> (platform b = LINUX \<longrightarrow>
        (proc_LoadFromSystem h \<and> proc_GetNumCpus h = Some l \<longrightarrow> fst (GetMaxCpus s) = l)
        \<and> (proc_LoadFromSystem h \<and> proc_GetNumPhysicalCpus h = Some p \<longrightarrow>
             fst (GetMaxPhysicalCpus s) = p)
        \<and> ((\<forall>q. proc_LoadFromSystem h \<and> proc_GetNumPhysicalCpus h = Some q \<longrightarrow> 1 \<le> sint q) \<longrightarrow>
             1 \<le> sint (fst (GetMaxPhysicalCpus s)))
        \<and> (1 \<le> sint (fst (GetMaxCpus s))
             \<and> (\<forall>q. proc_LoadFromSystem h \<and> proc_GetNumPhysicalCpus h = Some q \<longrightarrow>
                    sint q \<le> sint (fst (GetMaxCpus s))) \<longrightarrow>
             sint (fst (GetMaxPhysicalCpus s)) \<le> sint (fst (GetMaxCpus s))))"
  (is "_ \<longrightarrow> ?W \<and> ?A \<and> ?L")
proof
  assume "SystemInfo b h = Some s"
  then show "?W \<and> ?A \<and> ?L"
  proof (cases rule: SystemInfo_platform)
    case (1 a s1)
    have L: "logical_cpus s = dwNumberOfProcessors h"
      using 1 win32_counts(1) [OF 1(2)] by simp
    have low: "1 \<le> sint (dwNumberOfProcessors h) \<longrightarrow> 1 \<le> sint (physical_cpus s)"
      using 1 win32_counts(2) [OF 1(2)] by simp
    have P: "physical_cpus s =
               (if sint (of_nat (count_list infos RelationProcessorCore) :: int32) \<le> 0
                then dwNumberOfProcessors h
                else of_nat (count_list infos RelationProcessorCore))"
      if "glpi_found h" "glpi_loop (glpi h) 0 = Some (Some infos)"
      using 1 win32_counts(3) [OF 1(2) that] by simp
    have up: "sint (physical_cpus s) \<le> sint (dwNumberOfProcessors h)"
      if "1 \<le> sint (dwNumberOfProcessors h)"
        "\<forall>is. glpi_found h \<and> glpi_loop (glpi h) 0 = Some (Some is) \<longrightarrow>
            sint (of_nat (count_list is RelationProcessorCore) :: int32)
              \<le> sint (dwNumberOfProcessors h)"
      using 1 win32_counts(4) [OF 1(2) _ that(1)] that(2) by simp
    from 1(1) L low P up show ?thesis
      by (simp add: GetMaxCpus_def GetMaxPhysicalCpus_def)
  next
    case (2 a)
    have eq: "logical_cpus s = store (sysctl32 h ''hw.logicalcpu_max'') 1"
      "physical_cpus s = store (sysctl32 h ''hw.physicalcpu_max'') 1"
      using 2 by (simp_all add: apple_counts)
    have low: "1 \<le> sint (physical_cpus s)"
      if "\<forall>q. sysctl32 h ''hw.physicalcpu_max'' = Some q \<longrightarrow> 1 \<le> sint q"
      unfolding eq using that by (rule store_lower)
    have up: "sint (physical_cpus s) \<le> sint (logical_cpus s)"
      if "1 \<le> sint (logical_cpus s)"
        "\<forall>q. sysctl32 h ''hw.physicalcpu_max'' = Some q \<longrightarrow> sint q \<le> sint (logical_cpus s)"
      unfolding eq(2) using that by (rule store_upper)
    from 2(1) eq low up show ?thesis
      by (auto simp: GetMaxCpus_def GetMaxPhysicalCpus_def store_def)
  next
    case (3 a)
    have eqL: "logical_cpus s =
        (if proc_LoadFromSystem h then store (proc_GetNumCpus h) 1 else 1)"
      and eqP: "physical_cpus s =
        (if proc_LoadFromSystem h then store (proc_GetNumPhysicalCpus h) 1 else 1)"
      using 3 by (simp_all add: linux_counts)
    have low: "1 \<le> sint (physical_cpus s)"
      if "\<forall>q. proc_LoadFromSystem h \<and> proc_GetNumPhysicalCpus h = Some q \<longrightarrow> 1 \<le> sint q"
    proof (cases "proc_LoadFromSystem h")
      case True
      with that have "\<forall>q. proc_GetNumPhysicalCpus h = Some q \<longrightarrow> 1 \<le> sint q" by simp
      then have "1 \<le> sint (store (proc_GetNumPhysicalCpus h) (1 :: int32))"
        by (rule store_lower)
      with True eqP show ?thesis by simp
    next
      case False
      with eqP show ?thesis by simp
    qed
    have up: "sint (physical_cpus s) \<le> sint (logical_cpus s)"
      if one: "1 \<le> sint (logical_cpus s)"
        and le: "\<forall>q. proc_LoadFromSystem h \<and> proc_GetNumPhysicalCpus h = Some q \<longrightarrow>
               sint q \<le> sint (logical_cpus s)"
    proof (cases "proc_LoadFromSystem h")
      case True
      with le have "\<forall>q. proc_GetNumPhysicalCpus h = Some q \<longrightarrow> sint q \<le> sint (logical_cpus s)"
        by simp
      with one have "sint (store (proc_GetNumPhysicalCpus h) (1 :: int32)) \<le> sint (logical_cpus s)"
        by (rule store_upper)
      with True eqP show ?thesis by simp
    next
      case False
      with eqP one show ?thesis by simp
    qed
    from 3(1) eqL eqP low up show ?thesis
      by (auto simp: GetMaxCpus_def GetMaxPhysicalCpus_def store_def)
  qed
qed

lemma SystemInfo_threads_only:
  "SystemInfo osx_x64 threads_only_host =
     Some ((SystemInfo_init SI_ARCH_X64)\<lparr>logical_cpus := 8\<rparr>)"
  by (simp add: SystemInfo_def target_arch_def osx_x64_def SystemInfo_apple_def store_def
      SystemInfo_cpuid_def threads_only_host_def silent_host_def SystemInfo_init_def)

lemma glpi_loop_eight_cores:
  "glpi_loop (glpi eight_cores_host) 0 =
     Some (Some [RelationProcessorCore, RelationProcessorCore, RelationProcessorCore,
                 RelationProcessorCore, RelationProcessorCore, RelationProcessorCore,
                 RelationProcessorCore, RelationProcessorCore])"
  by (simp add: glpi_loop.simps eight_cores_host_def silent_host_def ERROR_INSUFFICIENT_BUFFER_def)

lemma eight_cores_host_fields:
  "glpi_found eight_cores_host" "dwNumberOfProcessors eight_cores_host = 4"
  "wProcessorLevel eight_cores_host = 0" "wProcessorRevision eight_cores_host = 0"
  "cpuid eight_cores_host = (\<lambda>leaf. (0, 0, 0, 0))"
  by (simp_all add: eight_cores_host_def silent_host_def)

lemma SystemInfo_eight_cores:
  "SystemInfo win32_x86 eight_cores_host =
     Some ((SystemInfo_init SI_ARCH_X86)\<lparr>physical_cpus := 8, logical_cpus := 4\<rparr>)"
  by (simp add: SystemInfo_def target_arch_def win32_x86_def SystemInfo_win32_def
      GetProcessorInformation_def glpi_loop_eight_cores eight_cores_host_fields
      SystemInfo_cpuid_def SystemInfo_init_def)

lemma glpi_loop_no_processors:
  "glpi_loop (glpi no_processors_host) 0 = Some (Some [])"
  by (simp add: glpi_loop.simps no_processors_host_def silent_host_def
      ERROR_INSUFFICIENT_BUFFER_def)

lemma no_processors_host_fields:
  "glpi_found no_processors_host" "dwNumberOfProcessors no_processors_host = 0"
  "wProcessorLevel no_processors_host = 0" "wProcessorRevision no_processors_host = 0"
  "cpuid no_processors_host = (\<lambda>leaf. (0, 0, 0, 0))"
  by (simp_all add: no_processors_host_def silent_host_def)

lemma SystemInfo_no_processors:
  "SystemInfo win32_x86 no_processors_host =
     Some ((SystemInfo_init SI_ARCH_X86)\<lparr>physical_cpus := 0, logical_cpus := 0\<rparr>)"
  by (simp add: SystemInfo_def target_arch_def win32_x86_def SystemInfo_win32_def
      GetProcessorInformation_def glpi_loop_no_processors no_processors_host_fields
      SystemInfo_cpuid_def SystemInfo_init_def)

lemma SystemInfo_cores_only:
  "SystemInfo osx_x64 cores_only_host =
     Some ((SystemInfo_init SI_ARCH_X64)\<lparr>physical_cpus := 4\<rparr>)"
  by (simp add: SystemInfo_def target_arch_def osx_x64_def SystemInfo_apple_def store_def
      SystemInfo_cpuid_def cores_only_host_def silent_host_def SystemInfo_init_def)

lemma SystemInfo_zero_cores:
  "SystemInfo osx_x64 zero_cores_host =
     Some ((SystemInfo_init SI_ARCH_X64)\<lparr>physical_cpus := 0, logical_cpus := 8\<rparr>)"
  by (simp add: SystemInfo_def target_arch_def osx_x64_def SystemInfo_apple_def store_def
      SystemInfo_cpuid_def zero_cores_host_def silent_host_def SystemInfo_init_def)

lemma SystemInfo_proc:
  "SystemInfo linux_x64 proc_host =
     Some ((SystemInfo_init SI_ARCH_X64)\<lparr>physical_cpus := 8, logical_cpus := 16\<rparr>)"
  by (simp add: SystemInfo_def target_arch_def linux_x64_def SystemInfo_linux_def store_def
      SystemInfo_cpuid_def proc_host_def silent_host_def SystemInfo_init_def)

text \<open>
  The claim as it was written fails in each of its parts. A Windows host that lists
  eight cores and reports four processors, and an Apple host on which only
  \<^verbatim>\<open>hw.physicalcpu_max\<close> can be read, have more cores than threads. An Apple host that
  reports eight threads and no number of cores has a physical count of 1, not 8. An
  Apple host that reports 0 cores, and a Windows host that reports no processor and
  lists no core, have a physical count of 0.
\<close>

theorem cpu_counts_not_ordered:
  "SystemInfo win32_x86 eight_cores_host =
     Some ((SystemInfo_init SI_ARCH_X86)\<lparr>physical_cpus := 8, logical_cpus := 4\<rparr>)
   \<and> \<not> sint (fst (GetMaxPhysicalCpus
                    ((SystemInfo_init SI_ARCH_X86)\<lparr>physical_cpus := 8, logical_cpus := 4\<rparr>)))
        \<le> sint (fst (GetMaxCpus
                    ((SystemInfo_init SI_ARCH_X86)\<lparr>physical_cpus := 8, logical_cpus := 4\<rparr>)))
   \<and> SystemInfo osx_x64 cores_only_host =
       Some ((SystemInfo_init SI_ARCH_X64)\<lparr>physical_cpus := 4\<rparr>)
   \<and> \<not> sint (fst (GetMaxPhysicalCpus ((SystemInfo_init SI_ARCH_X64)\<lparr>physical_cpus := 4\<rparr>)))
        \<le> sint (fst (GetMaxCpus ((SystemInfo_init SI_ARCH_X64)\<lparr>physical_cpus := 4\<rparr>)))
   \<and> SystemInfo osx_x64 threads_only_host =
       Some ((SystemInfo_init SI_ARCH_X64)\<lparr>logical_cpus := 8\<rparr>)
   \<and> fst (GetMaxPhysicalCpus ((SystemInfo_init SI_ARCH_X64)\<lparr>logical_cpus := 8\<rparr>)) = 1
   \<and> fst (GetMaxCpus ((SystemInfo_init SI_ARCH_X64)\<lparr>logical_cpus := 8\<rparr>)) = 8
   \<and> SystemInfo osx_x64 zero_cores_host =
       Some ((SystemInfo_init SI_ARCH_X64)\<lparr>physical_cpus := 0, logical_cpus := 8\<rparr>)
   \<and> \<not> 1 \<le> sint (fst (GetMaxPhysicalCpus
                        ((SystemInfo_init SI_ARCH_X64)\<lparr>physical_cpus := 0, logical_cpus := 8\<rparr>)))
   \<and> SystemInfo win32_x86 no_processors_host =
       Some ((SystemInfo_init SI_ARCH_X86)\<lparr>physical_cpus := 0, logical_cpus := 0\<rparr>)
   \<and> \<not> 1 \<le> sint (fst (GetMaxPhysicalCpus
                        ((SystemInfo_init SI_ARCH_X86)\<lparr>physical_cpus := 0, logical_cpus := 0\<rparr>)))"
  by (simp add: SystemInfo_eight_cores SystemInfo_cores_only SystemInfo_threads_only
      SystemInfo_zero_cores SystemInfo_no_processors GetMaxPhysicalCpus_def GetMaxCpus_def
      SystemInfo_init_def)

lemma glpi_loop_no_cores:
  "glpi_loop (glpi no_cores_host) 0 = Some (Some [RelationCache 4194304, RelationOther])"
  by (simp add: glpi_loop.simps no_cores_host_def silent_host_def ERROR_INSUFFICIENT_BUFFER_def)

lemma no_cores_host_fields:
  "glpi_found no_cores_host" "dwNumberOfProcessors no_cores_host = 4"
  "wProcessorLevel no_cores_host = 0" "wProcessorRevision no_cores_host = 0"
  "cpuid no_cores_host = (\<lambda>leaf. (0, 0, 0, 0))"
  by (simp_all add: no_cores_host_def silent_host_def)

lemma GetProcessorInformation_no_cores:
  "GetProcessorInformation no_cores_host (1, 0) = Some (0, 4194304)"
  by (simp add: GetProcessorInformation_def glpi_loop_no_cores no_cores_host_fields)

lemma SystemInfo_no_cores:
  "SystemInfo win32_x86 no_cores_host =
     Some ((SystemInfo_init SI_ARCH_X86)
             \<lparr>physical_cpus := 4, logical_cpus := 4, cache_size := 4194304\<rparr>)"
  by (simp add: SystemInfo_def target_arch_def win32_x86_def SystemInfo_win32_def
      GetProcessorInformation_no_cores no_cores_host_fields SystemInfo_cpuid_def
      SystemInfo_init_def)

lemma SystemInfo_mac:
  "SystemInfo osx_x64 mac_host =
     Some ((SystemInfo_init SI_ARCH_X64)\<lparr>physical_cpus := 4, logical_cpus := 8\<rparr>)"
  by (simp add: SystemInfo_def target_arch_def osx_x64_def SystemInfo_apple_def store_def
      SystemInfo_cpuid_def mac_host_def silent_host_def SystemInfo_init_def)

theorem cpu_counts_as_reported_witness:
  "SystemInfo win32_x86 no_cores_host =
     Some ((SystemInfo_init SI_ARCH_X86)
             \<lparr>physical_cpus := 4, logical_cpus := 4, cache_size := 4194304\<rparr>)
   \<and> fst (GetMaxCpus ((SystemInfo_init SI_ARCH_X86)
             \<lparr>physical_cpus := 4, logical_cpus := 4, cache_size := 4194304\<rparr>)) = 4
   \<and> fst (GetMaxPhysicalCpus ((SystemInfo_init SI_ARCH_X86)
             \<lparr>physical_cpus := 4, logical_cpus := 4, cache_size := 4194304\<rparr>)) =
       fst (GetMaxCpus ((SystemInfo_init SI_ARCH_X86)
             \<lparr>physical_cpus := 4, logical_cpus := 4, cache_size := 4194304\<rparr>))
   \<and> 1 \<le> sint (fst (GetMaxPhysicalCpus ((SystemInfo_init SI_ARCH_X86)
             \<lparr>physical_cpus := 4, logical_cpus := 4, cache_size := 4194304\<rparr>)))
   \<and> sint (fst (GetMaxPhysicalCpus ((SystemInfo_init SI_ARCH_X86)
             \<lparr>physical_cpus := 4, logical_cpus := 4, cache_size := 4194304\<rparr>)))
       \<le> sint (fst (GetMaxCpus ((SystemInfo_init SI_ARCH_X86)
             \<lparr>physical_cpus := 4, logical_cpus := 4, cache_size := 4194304\<rparr>)))
   \<and> SystemInfo win32_x86 eight_cores_host =
       Some ((SystemInfo_init SI_ARCH_X86)\<lparr>physical_cpus := 8, logical_cpus := 4\<rparr>)
   \<and> fst (GetMaxPhysicalCpus
            ((SystemInfo_init SI_ARCH_X86)\<lparr>physical_cpus := 8, logical_cpus := 4\<rparr>)) = 8
   \<and> SystemInfo osx_x64 mac_host =
       Some ((SystemInfo_init SI_ARCH_X64)\<lparr>physical_cpus := 4, logical_cpus := 8\<rparr>)
   \<and> fst (GetMaxCpus ((SystemInfo_init SI_ARCH_X64)\<lparr>physical_cpus := 4, logical_cpus := 8\<rparr>))
       = 8
   \<and> fst (GetMaxPhysicalCpus
            ((SystemInfo_init SI_ARCH_X64)\<lparr>physical_cpus := 4, logical_cpus := 8\<rparr>)) = 4
   \<and> 1 \<le> sint (fst (GetMaxPhysicalCpus
            ((SystemInfo_init SI_ARCH_X64)\<lparr>physical_cpus := 4, logical_cpus := 8\<rparr>)))
   \<and> sint (fst (GetMaxPhysicalCpus
            ((SystemInfo_init SI_ARCH_X64)\<lparr>physical_cpus := 4, logical_cpus := 8\<rparr>)))
       \<le> sint (fst (GetMaxCpus
            ((SystemInfo_init SI_ARCH_X64)\<lparr>physical_cpus := 4, logical_cpus := 8\<rparr>)))
   \<and> SystemInfo linux_x64 proc_host =
       Some ((SystemInfo_init SI_ARCH_X64)\<lparr>physical_cpus := 8, logical_cpus := 16\<rparr>)
   \<and> fst (GetMaxCpus ((SystemInfo_init SI_ARCH_X64)\<lparr>physical_cpus := 8, logical_cpus := 16\<rparr>))
       = 16
   \<and> fst (GetMaxPhysicalCpus
            ((SystemInfo_init SI_ARCH_X64)\<lparr>physical_cpus := 8, logical_cpus := 16\<rparr>)) = 8
   \<and> 1 \<le> sint (fst (GetMaxPhysicalCpus
            ((SystemInfo_init SI_ARCH_X64)\<lparr>physical_cpus := 8, logical_cpus := 16\<rparr>)))
   \<and> sint (fst (GetMaxPhysicalCpus
            ((SystemInfo_init SI_ARCH_X64)\<lparr>physical_cpus := 8, logical_cpus := 16\<rparr>)))
       \<le> sint (fst (GetMaxCpus
            ((SystemInfo_init SI_ARCH_X64)\<lparr>physical_cpus := 8, logical_cpus := 16\<rparr>)))"
proof -
  let ?P = "(SystemInfo_init SI_ARCH_X64)\<lparr>physical_cpus := 8, logical_cpus := 16\<rparr>"
  let ?W = "(SystemInfo_init SI_ARCH_X86)
              \<lparr>physical_cpus := 4, logical_cpus := 4, cache_size := 4194304\<rparr>"
  let ?E = "(SystemInfo_init SI_ARCH_X86)\<lparr>physical_cpus := 8, logical_cpus := 4\<rparr>"
  let ?M = "(SystemInfo_init SI_ARCH_X64)\<lparr>physical_cpus := 4, logical_cpus := 8\<rparr>"
  have win: "platform win32_x86 = WIN32" by (simp add: win32_x86_def)
  have osx: "platform osx_x64 = OSX \<or> platform osx_x64 = IOS" by (simp add: osx_x64_def)
  have linux: "platform linux_x64 = LINUX" by (simp add: linux_x64_def)
  have enum: "glpi_found no_cores_host
      \<and> glpi_loop (glpi no_cores_host) 0 = Some (Some [RelationCache 4194304, RelationOther])"
    by (simp add: glpi_loop_no_cores no_cores_host_fields)
  have none: "(of_nat (count_list [RelationCache 4194304, RelationOther] RelationProcessorCore)
                 :: int32) = 0"
    by simp
  have four: "dwNumberOfProcessors no_cores_host = 4"
    by (simp add: no_cores_host_fields)
  have enum8: "glpi_found eight_cores_host
      \<and> glpi_loop (glpi eight_cores_host) 0 =
          Some (Some [RelationProcessorCore, RelationProcessorCore, RelationProcessorCore,
                      RelationProcessorCore, RelationProcessorCore, RelationProcessorCore,
                      RelationProcessorCore, RelationProcessorCore])"
    by (simp add: glpi_loop_eight_cores eight_cores_host_fields)
  have eight: "(of_nat (count_list [RelationProcessorCore, RelationProcessorCore,
                   RelationProcessorCore, RelationProcessorCore, RelationProcessorCore,
                   RelationProcessorCore, RelationProcessorCore, RelationProcessorCore]
                   RelationProcessorCore) :: int32) = 8"
    by simp
  have mac: "sysctl32 mac_host ''hw.logicalcpu_max'' = Some 8
             \<and> sysctl32 mac_host ''hw.physicalcpu_max'' = Some 4"
    by (simp add: mac_host_def silent_host_def)
  have proc: "proc_LoadFromSystem proc_host \<and> proc_GetNumCpus proc_host = Some 16
              \<and> proc_GetNumPhysicalCpus proc_host = Some 8"
    by (simp add: proc_host_def silent_host_def)
  note w = cpu_counts_as_reported
    [of win32_x86 no_cores_host ?W "[RelationCache 4194304, RelationOther]",
     rule_format, OF SystemInfo_no_cores, THEN conjunct1, rule_format, OF win]
  have a: "fst (GetMaxCpus ?W) = 4"
    using w four by simp
  have b: "fst (GetMaxPhysicalCpus ?W) = fst (GetMaxCpus ?W)
           \<and> sint (fst (GetMaxPhysicalCpus ?W)) \<le> sint (fst (GetMaxCpus ?W))"
    using w enum none four by simp
  have c: "1 \<le> sint (fst (GetMaxPhysicalCpus ?W))"
    using w four by simp
  note e = cpu_counts_as_reported
    [of win32_x86 eight_cores_host ?E
        "[RelationProcessorCore, RelationProcessorCore, RelationProcessorCore,
          RelationProcessorCore, RelationProcessorCore, RelationProcessorCore,
          RelationProcessorCore, RelationProcessorCore]",
     rule_format, OF SystemInfo_eight_cores, THEN conjunct1, rule_format, OF win]
  have d: "fst (GetMaxPhysicalCpus ?E) = 8"
    using e enum8 eight by simp
  note m = cpu_counts_as_reported
    [of osx_x64 mac_host ?M _ 8 4,
     rule_format, OF SystemInfo_mac, THEN conjunct2, THEN conjunct1, rule_format, OF osx]
  have f: "fst (GetMaxCpus ?M) = 8 \<and> fst (GetMaxPhysicalCpus ?M) = 4
           \<and> 1 \<le> sint (fst (GetMaxPhysicalCpus ?M))
           \<and> sint (fst (GetMaxPhysicalCpus ?M)) \<le> sint (fst (GetMaxCpus ?M))"
    using m mac by simp
  note x = cpu_counts_as_reported
    [of linux_x64 proc_host ?P _ 16 8,
     rule_format, OF SystemInfo_proc, THEN conjunct2, THEN conjunct2, rule_format, OF linux]
  have g: "fst (GetMaxCpus ?P) = 16 \<and> fst (GetMaxPhysicalCpus ?P) = 8
           \<and> 1 \<le> sint (fst (GetMaxPhysicalCpus ?P))
           \<and> sint (fst (GetMaxPhysicalCpus ?P)) \<le> sint (fst (GetMaxCpus ?P))"
    using x proc by simp
  from a b c d f g SystemInfo_no_cores SystemInfo_eight_cores SystemInfo_mac SystemInfo_proc
  show ?thesis by blast
qed

section \<open>The cache size from the extended leaf\<close>

text \<open>
  What holds of lines 212-221: the leaf is not read when an earlier source left a cache
  size other than 0 (the instance does not depend on what the instruction would
  answer), and when it is read and bit 31 of ecx is clear, the cache size is bits 16-31
  of ecx times 1024.
\<close>

lemma SystemInfo_cpuid_skipped:
  "cache_size s \<noteq> 0 \<Longrightarrow> SystemInfo_cpuid b h s = s"
  by (simp add: SystemInfo_cpuid_def)

lemma SystemInfo_cpuid_not_x86:
  "\<not> CPU_X86 b \<Longrightarrow> SystemInfo_cpuid b h s = s"
  by (simp add: SystemInfo_cpuid_def)

lemma signed_drop_bit_16_nonneg:
  fixes c :: "32 word"
  assumes "\<not> bit c 31"
  shows "signed_drop_bit 16 c = drop_bit 16 c"
proof (rule bit_word_eqI)
  fix n
  assume "n < LENGTH(32)"
  with assms show "bit (signed_drop_bit 16 c) n \<longleftrightarrow> bit (drop_bit 16 c) n"
    by (auto simp: bit_signed_drop_bit_iff bit_drop_bit_eq dest: bit_imp_le_length)
qed

lemma SystemInfo_cpuid_read:
  assumes "CPU_X86 b" "cache_size s = 0"
    and "cpuid h 0x80000000 = (a0, b0, c0, d0)" "0x80000006 \<le> a0"
    and "cpuid h 0x80000006 = (a1, b1, c1, d1)" "\<not> bit c1 31"
  shows "cache_size (SystemInfo_cpuid b h s) = drop_bit 16 c1 * 1024"
  using assms by (simp add: SystemInfo_cpuid_def signed_drop_bit_16_nonneg)

lemma SystemInfo_l2_4m:
  "map_option cache_size (SystemInfo linux_x64 l2_4m_host) = Some 4194304"
  by (simp add: SystemInfo_def target_arch_def linux_x64_def SystemInfo_linux_def
      SystemInfo_cpuid_def l2_4m_host_def silent_host_def SystemInfo_init_def)

text \<open>
  Claim C4. The value is not bits 16-31 of ecx times 1024 when bit 31 is set:
  \<^verbatim>\<open>cpu_info[2]\<close> is an \<^verbatim>\<open>int\<close> and the shift extends its sign. A processor that
  reports an L2 cache of 32768 KB (ecx = \<^verbatim>\<open>0x80000000\<close>) gets a cache size of
  -33554432 bytes, where bits 16-31 times 1024 is 33554432.
\<close>

theorem cache_size_sign_extended:
  "map_option (sint \<circ> cache_size) (SystemInfo linux_x64 l2_32m_host) = Some (- 33554432)
   \<and> int (unat (drop_bit 16 (0x80000000 :: 32 word))) * 1024 = 33554432"
  by (simp add: SystemInfo_def target_arch_def linux_x64_def SystemInfo_linux_def
      SystemInfo_cpuid_def l2_32m_host_def silent_host_def SystemInfo_init_def)

end
